theory Spec2Isabelle
  imports Complex_Main
begin

section \<open>JavaScript numbers\<close>

text \<open>
  The dashboard computes with JavaScript numbers, which are IEEE 754 binary64 values.
  A finite number is kept the way the machine keeps it: a sign, a mantissa \<open>m\<close> and an
  exponent \<open>e\<close>, standing for \<open>(-1)^s * m * 2^e\<close>. The canonical form has
  \<open>0 \<le> m < 2^53\<close> and \<open>-1074 \<le> e \<le> 971\<close>, with \<open>2^52 \<le> m\<close> unless \<open>e = -1074\<close>
  (the subnormal numbers); the two zeros are \<open>Finite False 0 0\<close> and \<open>Finite True 0 0\<close>.
  All arithmetic below is on integers, so every result can be evaluated exactly.
\<close>

datatype number = Finite bool int int | Infinite bool | NaN

text \<open>\<open>digitCount b n\<close> is the number of digits of \<open>n\<close> in base \<open>b\<close> (0 for \<open>n \<le> 0\<close>).\<close>

function digitCount :: "int \<Rightarrow> int \<Rightarrow> int" where
  "digitCount b n = (if n \<le> 0 \<or> b \<le> 1 then 0 else 1 + digitCount b (n div b))"
  by pat_completeness auto
termination
  by (relation "measure (\<lambda>(b, n). nat n)") (auto intro: int_div_less_self)

declare digitCount.simps [simp del]

text \<open>\<open>floorLog b p q\<close> is \<open>\<lfloor>log\<^sub>b (p / q)\<rfloor>\<close> for positive \<open>p\<close> and \<open>q\<close>: the difference of the
  digit counts is either that value or one more.\<close>

definition floorLog :: "int \<Rightarrow> int \<Rightarrow> int \<Rightarrow> int" where
  "floorLog b p q =
     (let d = digitCount b p - digitCount b q
      in if (if 0 \<le> d then q * b ^ nat d \<le> p else q \<le> p * b ^ nat (- d)) then d else d - 1)"

text \<open>The integer nearest to \<open>n / d\<close>, the even one of two (roundTiesToEven).\<close>

definition roundQuotient :: "int \<Rightarrow> int \<Rightarrow> int" where
  "roundQuotient n d =
     (let k = n div d; r = n mod d
      in if 2 * r < d then k else if d < 2 * r then k + 1 else if even k then k else k + 1)"

text \<open>
  \<open>roundToDouble s p q e\<close> is the binary64 value nearest to \<open>(-1)^s * (p / q) * 2^e\<close>, for
  \<open>p \<ge> 0\<close> and \<open>q > 0\<close>: the exponent \<open>E\<close> of the last mantissa bit is fixed by the magnitude
  (and is never below that of the subnormal numbers), the mantissa is the quotient by
  \<open>2^E\<close> rounded to the nearest integer, a mantissa that rounds up to \<open>2^53\<close> moves to the
  next exponent, an exponent beyond the largest one overflows to infinity, and a mantissa
  that rounds to nothing leaves a zero.
\<close>

definition roundToDouble :: "bool \<Rightarrow> int \<Rightarrow> int \<Rightarrow> int \<Rightarrow> number" where
  "roundToDouble s p q e =
     (if p = 0 then Finite s 0 0
      else
        let E = max (floorLog 2 p q + e - 52) (- 1074);
            m = (if E \<le> e then roundQuotient (p * 2 ^ nat (e - E)) q
                 else roundQuotient p (q * 2 ^ nat (E - e)));
            E' = (if m = 2 ^ 53 then E + 1 else E);
            m' = (if m = 2 ^ 53 then 2 ^ 52 else m)
        in if m' = 0 then Finite s 0 0
           else if 971 < E' then Infinite s
           else Finite s m' E')"

text \<open>A decimal literal of the source with the value \<open>p / q\<close>: \<open>1.1\<close> is \<open>lit 11 10\<close>.\<close>

definition lit :: "int \<Rightarrow> int \<Rightarrow> number" where
  "lit p q = roundToDouble False p q 0"

text \<open>The number an integer argument arrives as.\<close>

definition ofInt :: "int \<Rightarrow> number" where
  "ofInt n = roundToDouble (n < 0) \<bar>n\<bar> 1 0"

fun fneg :: "number \<Rightarrow> number" where
  "fneg (Finite s m e) = Finite (\<not> s) m e"
| "fneg (Infinite s) = Infinite (\<not> s)"
| "fneg NaN = NaN"

text \<open>Addition: the exact sum is formed at the smaller exponent and rounded once. An exact
  zero sum is \<open>+0\<close> unless both operands are negative zeros.\<close>

fun fadd :: "number \<Rightarrow> number \<Rightarrow> number" where
  "fadd (Finite s1 m1 e1) (Finite s2 m2 e2) =
     (let e = min e1 e2;
          c = (if s1 then - m1 else m1) * 2 ^ nat (e1 - e)
            + (if s2 then - m2 else m2) * 2 ^ nat (e2 - e)
      in if c = 0 then Finite (s1 \<and> s2) 0 0 else roundToDouble (c < 0) \<bar>c\<bar> 1 e)"
| "fadd (Finite s1 m1 e1) (Infinite s2) = Infinite s2"
| "fadd (Infinite s1) (Finite s2 m2 e2) = Infinite s1"
| "fadd (Infinite s1) (Infinite s2) = (if s1 = s2 then Infinite s1 else NaN)"
| "fadd NaN y = NaN"
| "fadd x NaN = NaN"

definition fsub :: "number \<Rightarrow> number \<Rightarrow> number" where
  "fsub x y = fadd x (fneg y)"

fun fmul :: "number \<Rightarrow> number \<Rightarrow> number" where
  "fmul (Finite s1 m1 e1) (Finite s2 m2 e2) = roundToDouble (s1 \<noteq> s2) (m1 * m2) 1 (e1 + e2)"
| "fmul (Finite s1 m1 e1) (Infinite s2) = (if m1 = 0 then NaN else Infinite (s1 \<noteq> s2))"
| "fmul (Infinite s1) (Finite s2 m2 e2) = (if m2 = 0 then NaN else Infinite (s1 \<noteq> s2))"
| "fmul (Infinite s1) (Infinite s2) = Infinite (s1 \<noteq> s2)"
| "fmul NaN y = NaN"
| "fmul x NaN = NaN"

fun fdiv :: "number \<Rightarrow> number \<Rightarrow> number" where
  "fdiv (Finite s1 m1 e1) (Finite s2 m2 e2) =
     (if m2 = 0 then (if m1 = 0 then NaN else Infinite (s1 \<noteq> s2))
      else roundToDouble (s1 \<noteq> s2) m1 m2 (e1 - e2))"
| "fdiv (Finite s1 m1 e1) (Infinite s2) = Finite (s1 \<noteq> s2) 0 0"
| "fdiv (Infinite s1) (Finite s2 m2 e2) = Infinite (s1 \<noteq> s2)"
| "fdiv (Infinite s1) (Infinite s2) = NaN"
| "fdiv NaN y = NaN"
| "fdiv x NaN = NaN"

text \<open>The order \<open>\<le>\<close> of the numbers: finite values are compared at their smaller exponent,
  and nothing compares with \<open>NaN\<close>.\<close>

fun num_le :: "number \<Rightarrow> number \<Rightarrow> bool" where
  "num_le (Finite s1 m1 e1) (Finite s2 m2 e2) =
     ((if s1 then - m1 else m1) * 2 ^ nat (e1 - min e1 e2)
        \<le> (if s2 then - m2 else m2) * 2 ^ nat (e2 - min e1 e2))"
| "num_le (Finite s1 m1 e1) (Infinite s2) = (\<not> s2)"
| "num_le (Infinite s1) (Finite s2 m2 e2) = s1"
| "num_le (Infinite s1) (Infinite s2) = (s1 \<or> \<not> s2)"
| "num_le NaN y = False"
| "num_le x NaN = False"

text \<open>A positive real number: finite and above zero.\<close>

fun positive :: "number \<Rightarrow> bool" where
  "positive (Finite s m e) = (\<not> s \<and> 0 < m)"
| "positive (Infinite s) = False"
| "positive NaN = False"

section \<open>Numbers and strings\<close>

definition digitChar :: "int \<Rightarrow> char" where
  "digitChar d = ''0123456789'' ! nat d"

function decimalDigits :: "int \<Rightarrow> string" where
  "decimalDigits n =
     (if n < 10 then [digitChar n] else decimalDigits (n div 10) @ [digitChar (n mod 10)])"
  by pat_completeness auto
termination
  by (relation "measure nat") auto

declare decimalDigits.simps [simp del]

text \<open>\<open>scaledFloor m e p q\<close> is \<open>\<lfloor>m * 2^e * p / q\<rfloor>\<close>, and \<open>scaledRound m e p q\<close> is the integer
  nearest to \<open>m * 2^e * p / q\<close>, the larger one of two.\<close>

definition scaledFloor :: "int \<Rightarrow> int \<Rightarrow> int \<Rightarrow> int \<Rightarrow> int" where
  "scaledFloor m e p q =
     (if 0 \<le> e then (m * 2 ^ nat e * p) div q else (m * p) div (q * 2 ^ nat (- e)))"

definition scaledRound :: "int \<Rightarrow> int \<Rightarrow> int \<Rightarrow> int \<Rightarrow> int" where
  "scaledRound m e p q =
     (if 0 \<le> e then (2 * m * 2 ^ nat e * p + q) div (2 * q)
      else (2 * m * p + q * 2 ^ nat (- e)) div (2 * q * 2 ^ nat (- e)))"

subsection \<open>Number::toString\<close>

text \<open>
  The digits of a positive finite number \<open>m * 2^e\<close>: integers \<open>n\<close>, \<open>k\<close> and \<open>s\<close> with
  \<open>10^(k-1) \<le> s < 10^k\<close> such that \<open>s * 10^(n-k)\<close> rounds to the number and \<open>k\<close> is as small as
  possible; of several such \<open>s\<close> the one nearest to the number. For a given \<open>k\<close> only the two
  powers of ten around the number and the two integers around the quotient can qualify.
\<close>

definition digitCandidates :: "int \<Rightarrow> int \<Rightarrow> nat \<Rightarrow> (int \<times> int) list" where
  "digitCandidates m e k =
     (let n0 = (if 0 \<le> e then floorLog 10 (m * 2 ^ nat e) 1 else floorLog 10 m (2 ^ nat (- e))) + 1
      in [(n, s). n \<leftarrow> [n0, n0 + 1],
                  s \<leftarrow> (let f = (if int k \<le> n then scaledFloor m e 1 (10 ^ nat (n - int k))
                                   else scaledFloor m e (10 ^ nat (int k - n)) 1)
                          in [f, f + 1]),
                  10 ^ (k - 1) \<le> s \<and> s < 10 ^ k \<and>
                  (if int k \<le> n then roundToDouble False (s * 10 ^ nat (n - int k)) 1 0
                   else roundToDouble False s (10 ^ nat (int k - n)) 0) = Finite False m e])"

text \<open>\<open>distance m e K d s\<close> is \<open>\<bar>s * 10^d - m * 2^e\<bar>\<close> scaled by the positive factor
  \<open>10^K * 2^(max 0 (- e))\<close>, for \<open>K \<ge> max 0 (- d)\<close>.\<close>

definition distance :: "int \<Rightarrow> int \<Rightarrow> int \<Rightarrow> int \<Rightarrow> int \<Rightarrow> int" where
  "distance m e K d s = \<bar>s * 10 ^ nat (d + K) * 2 ^ nat (- e) - m * 2 ^ nat e * 10 ^ nat K\<bar>"

fun closer :: "int \<Rightarrow> int \<Rightarrow> nat \<Rightarrow> int \<times> int \<Rightarrow> int \<times> int \<Rightarrow> int \<times> int" where
  "closer m e k (n1, s1) (n2, s2) =
     (let K = max 0 (max (int k - n1) (int k - n2));
          d1 = distance m e K (n1 - int k) s1;
          d2 = distance m e K (n2 - int k) s2
      in if d2 < d1 \<or> (d2 = d1 \<and> even s2) then (n2, s2) else (n1, s1))"

fun searchDigits :: "int \<Rightarrow> int \<Rightarrow> nat list \<Rightarrow> (int \<times> nat \<times> int) option" where
  "searchDigits m e [] = None"
| "searchDigits m e (k # ks) =
     (case digitCandidates m e k of
        [] \<Rightarrow> searchDigits m e ks
      | c # cs \<Rightarrow> Some (case foldl (closer m e k) c cs of (n, s) \<Rightarrow> (n, k, s)))"

text \<open>Seventeen significant digits tell any two binary64 values apart, so the search is over
  \<open>k = 1, \<dots>, 17\<close>; the last case is not reached for a number in canonical form.\<close>

definition shortestDigits :: "int \<Rightarrow> int \<Rightarrow> int \<times> nat \<times> int" where
  "shortestDigits m e =
     (case searchDigits m e [1..<18] of
        Some r \<Rightarrow> r
      | None \<Rightarrow>
          (let n0 = (if 0 \<le> e then floorLog 10 (m * 2 ^ nat e) 1
                     else floorLog 10 m (2 ^ nat (- e))) + 1
           in (n0, 17, if 17 \<le> n0 then scaledFloor m e 1 (10 ^ nat (n0 - 17))
                       else scaledFloor m e (10 ^ nat (17 - n0)) 1)))"

definition exponentPart :: "int \<Rightarrow> string" where
  "exponentPart x = CHR ''e'' # (if x < 0 then CHR ''-'' else CHR ''+'') # decimalDigits \<bar>x\<bar>"

definition positiveToString :: "int \<Rightarrow> int \<Rightarrow> string" where
  "positiveToString m e =
     (case shortestDigits m e of (n, k, s) \<Rightarrow>
        let ds = decimalDigits s in
        if int k \<le> n \<and> n \<le> 21 then ds @ replicate (nat (n - int k)) CHR ''0''
        else if 0 < n \<and> n \<le> 21 then take (nat n) ds @ ''.'' @ drop (nat n) ds
        else if - 6 < n \<and> n \<le> 0 then ''0.'' @ replicate (nat (- n)) CHR ''0'' @ ds
        else if k = 1 then ds @ exponentPart (n - 1)
        else take 1 ds @ ''.'' @ drop 1 ds @ exponentPart (n - 1))"

fun NumberToString :: "number \<Rightarrow> string" where
  "NumberToString NaN = ''NaN''"
| "NumberToString (Infinite s) = (if s then ''-Infinity'' else ''Infinity'')"
| "NumberToString (Finite s m e) =
     (if m = 0 then ''0''
      else if s then ''-'' @ positiveToString m e
      else positiveToString m e)"

subsection \<open>Number.prototype.toFixed\<close>

datatype error = RangeError | TypeError

text \<open>\<open>atLeast10pow21 m e\<close> is \<open>10^21 \<le> m * 2^e\<close>.\<close>

definition atLeast10pow21 :: "int \<Rightarrow> int \<Rightarrow> bool" where
  "atLeast10pow21 m e =
     (if 0 \<le> e then 10 ^ 21 \<le> m * 2 ^ nat e else 10 ^ 21 * 2 ^ nat (- e) \<le> m)"

text \<open>
  \<open>toFixed v f\<close> follows the steps of the language definition: a \<open>RangeError\<close> for a digit
  count outside \<open>0..100\<close>; the general string of a number that is not finite; a minus sign
  for a number below zero; the general string of a magnitude of \<open>10^21\<close> or more; otherwise
  the integer \<open>n\<close> for which \<open>n / 10^f\<close> is nearest to the magnitude (the larger of two), its
  digits padded with zeros to \<open>f + 1\<close> places, and a point before the last \<open>f\<close> digits.
\<close>

definition toFixed :: "number \<Rightarrow> int \<Rightarrow> error + string" where
  "toFixed v f =
     (if f < 0 \<or> 100 < f then Inl RangeError
      else case v of
        Finite sg x e \<Rightarrow>
          (let s = (if sg \<and> x \<noteq> 0 then ''-'' else [])
           in if atLeast10pow21 x e then Inr (s @ NumberToString (Finite False x e))
              else
                let n = scaledRound x e (10 ^ nat f) 1;
                    m = (if n = 0 then ''0'' else decimalDigits n);
                    m = (if f \<noteq> 0 then
                           let k = int (length m);
                               m = (if k \<le> f then replicate (nat (f + 1 - k)) CHR ''0'' @ m else m);
                               k = (if k \<le> f then f + 1 else k)
                           in take (nat (k - f)) m @ ''.'' @ drop (nat (k - f)) m
                         else m)
                in Inr (s @ m))
      | _ \<Rightarrow> Inr (NumberToString v))"

subsection \<open>Number(string)\<close>

text \<open>
  The conversion of a string to a number, for the decimal literals: an optional sign, then
  \<open>Infinity\<close> or digits with an optional fraction and an optional exponent; the empty
  string is \<open>0\<close> and anything else is \<open>NaN\<close>. White space around the literal and the
  hexadecimal, octal and binary literals are left out: \<open>toFixed\<close> produces none of them.
\<close>

definition isDigit :: "char \<Rightarrow> bool" where
  "isDigit c = (48 \<le> (of_char c :: int) \<and> (of_char c :: int) \<le> 57)"

definition digitsValue :: "string \<Rightarrow> int" where
  "digitsValue ds = foldl (\<lambda>a c. 10 * a + (of_char c - 48)) 0 ds"

definition signedInteger :: "string \<Rightarrow> int option" where
  "signedInteger s =
     (let neg = (case s of c # _ \<Rightarrow> c = CHR ''-'' | [] \<Rightarrow> False);
          ds = (case s of c # t \<Rightarrow> if c = CHR ''-'' \<or> c = CHR ''+'' then t else s | [] \<Rightarrow> s)
      in if ds \<noteq> [] \<and> list_all isDigit ds
         then Some (if neg then - digitsValue ds else digitsValue ds) else None)"

definition StringToNumber :: "string \<Rightarrow> number" where
  "StringToNumber str =
     (if str = [] then Finite False 0 0
      else
        let neg = (hd str = CHR ''-'');
            body = (if hd str = CHR ''-'' \<or> hd str = CHR ''+'' then tl str else str)
        in if body = ''Infinity'' then Infinite neg
           else
             let ip = takeWhile isDigit body;
                 r1 = dropWhile isDigit body;
                 fp = (case r1 of c # t \<Rightarrow> if c = CHR ''.'' then takeWhile isDigit t else []
                       | [] \<Rightarrow> []);
                 r2 = (case r1 of c # t \<Rightarrow> if c = CHR ''.'' then dropWhile isDigit t else r1
                       | [] \<Rightarrow> []);
                 ex = (case r2 of [] \<Rightarrow> Some 0
                       | c # t \<Rightarrow> if c = CHR ''e'' \<or> c = CHR ''E'' then signedInteger t else None)
             in if ip = [] \<and> fp = [] then NaN
                else case ex of
                       None \<Rightarrow> NaN
                     | Some x \<Rightarrow>
                         let d = x - int (length fp)
                         in if 0 \<le> d then roundToDouble neg (digitsValue (ip @ fp) * 10 ^ nat d) 1 0
                            else roundToDouble neg (digitsValue (ip @ fp)) (10 ^ nat (- d)) 0)"

section \<open>The dashboard\<close>

datatype Region = Global | NorthAmerica | Europe | Asia | Africa | SouthAmerica | Oceania

definition regions :: "Region list" where
  "regions = [Global, NorthAmerica, Europe, Asia, Africa, SouthAmerica, Oceania]"

record RegionalFactors =
  temperature :: number
  precipitation :: number
  seaLevel :: number
  extremeEvents :: number

text \<open>The table of the source, entry by entry; \<open>regionalFactors[region]\<close> is
  \<open>map_of regionalFactors region\<close>, and reading a field of a missing entry is a \<open>TypeError\<close>.\<close>

definition regionalFactors :: "(Region \<times> RegionalFactors) list" where
  "regionalFactors =
     [(Global,
         \<lparr>temperature = lit 1 1, precipitation = lit 1 1,
          seaLevel = lit 1 1, extremeEvents = lit 1 1\<rparr>),
      (NorthAmerica,
         \<lparr>temperature = lit 12 10, precipitation = lit 13 10,
          seaLevel = lit 8 10, extremeEvents = lit 11 10\<rparr>),
      (Europe,
         \<lparr>temperature = lit 11 10, precipitation = lit 12 10,
          seaLevel = lit 9 10, extremeEvents = lit 12 10\<rparr>),
      (Asia,
         \<lparr>temperature = lit 13 10, precipitation = lit 14 10,
          seaLevel = lit 12 10, extremeEvents = lit 13 10\<rparr>),
      (Africa,
         \<lparr>temperature = lit 14 10, precipitation = lit 7 10,
          seaLevel = lit 11 10, extremeEvents = lit 14 10\<rparr>),
      (SouthAmerica,
         \<lparr>temperature = lit 11 10, precipitation = lit 15 10,
          seaLevel = lit 10 10, extremeEvents = lit 12 10\<rparr>),
      (Oceania,
         \<lparr>temperature = lit 12 10, precipitation = lit 9 10,
          seaLevel = lit 13 10, extremeEvents = lit 11 10\<rparr>)]"

record HistoricalPoint =
  year :: int
  temperature :: number

definition baseHistoricalData :: "HistoricalPoint list" where
  "baseHistoricalData =
     [\<lparr>year = 1900, temperature = fneg (lit 2 10)\<rparr>,
      \<lparr>year = 1950, temperature = lit 0 1\<rparr>,
      \<lparr>year = 2000, temperature = lit 5 10\<rparr>,
      \<lparr>year = 2023, temperature = lit 11 10\<rparr>,
      \<lparr>year = 2030, temperature = lit 13 10\<rparr>,
      \<lparr>year = 2040, temperature = lit 14 10\<rparr>,
      \<lparr>year = 2050, temperature = lit 16 10\<rparr>]"

record CO2Point =
  year :: int
  level :: number

definition co2Data :: "CO2Point list" where
  "co2Data =
     [\<lparr>year = 1900, level = lit 295 1\<rparr>,
      \<lparr>year = 1950, level = lit 310 1\<rparr>,
      \<lparr>year = 2000, level = lit 370 1\<rparr>,
      \<lparr>year = 2023, level = lit 420 1\<rparr>,
      \<lparr>year = 2030, level = lit 450 1\<rparr>,
      \<lparr>year = 2040, level = lit 490 1\<rparr>,
      \<lparr>year = 2050, level = lit 530 1\<rparr>]"

text \<open>\<open>Array.prototype.map\<close> with a callback that may throw: the first error ends it.\<close>

fun mapM :: "('a \<Rightarrow> error + 'b) \<Rightarrow> 'a list \<Rightarrow> error + 'b list" where
  "mapM f [] = Inr []"
| "mapM f (x # xs) =
     (case f x of
        Inl err \<Rightarrow> Inl err
      | Inr y \<Rightarrow> (case mapM f xs of Inl err \<Rightarrow> Inl err | Inr ys \<Rightarrow> Inr (y # ys)))"

text \<open>The callback of \<open>getRegionalHistoricalData\<close>: the point with its temperature replaced by
  \<open>Number((data.temperature * factor).toFixed(2))\<close>.\<close>

definition scaleTemperature :: "number \<Rightarrow> HistoricalPoint \<Rightarrow> error + HistoricalPoint" where
  "scaleTemperature factor data =
     (case toFixed (fmul (HistoricalPoint.temperature data) factor) 2 of
        Inl err \<Rightarrow> Inl err
      | Inr s \<Rightarrow> Inr (data\<lparr>HistoricalPoint.temperature := StringToNumber s\<rparr>))"

definition getRegionalHistoricalData :: "Region \<Rightarrow> error + HistoricalPoint list" where
  "getRegionalHistoricalData region =
     (case map_of regionalFactors region of
        None \<Rightarrow> Inl TypeError
      | Some factors \<Rightarrow>
          (let factor = RegionalFactors.temperature factors
           in mapM (scaleTemperature factor) baseHistoricalData))"

record ProjectedMetrics =
  temperature :: string
  precipitation :: string
  seaLevel :: string
  extremeEvents :: string

definition calculateMetrics :: "number \<Rightarrow> Region \<Rightarrow> error + ProjectedMetrics" where
  "calculateMetrics yr region =
     (let baseYear = lit 2023 1;
          yearDiff = fsub yr baseYear
      in case map_of regionalFactors region of
           None \<Rightarrow> Inl TypeError
         | Some factors \<Rightarrow>
            (let baseTempIncrease =
                   fadd (lit 11 10)
                     (fdiv (fmul yearDiff (fsub (lit 16 10) (lit 11 10)))
                        (fsub (lit 2050 1) (lit 2023 1)));
                 basePrecipChange =
                   fdiv (fmul yearDiff (lit 53 10)) (fsub (lit 2050 1) (lit 2023 1));
                 baseSeaLevelRise =
                   fdiv (fmul yearDiff (lit 263 10)) (fsub (lit 2050 1) (lit 2023 1));
                 baseExtremeEvents =
                   fdiv (fmul yearDiff (lit 32 1)) (fsub (lit 2050 1) (lit 2023 1))
             in case toFixed (fmul baseTempIncrease (RegionalFactors.temperature factors)) 1 of
                  Inl err \<Rightarrow> Inl err
                | Inr t \<Rightarrow>
               (case toFixed (fmul basePrecipChange (RegionalFactors.precipitation factors)) 1 of
                  Inl err \<Rightarrow> Inl err
                | Inr p \<Rightarrow>
               (case toFixed (fmul baseSeaLevelRise (RegionalFactors.seaLevel factors)) 1 of
                  Inl err \<Rightarrow> Inl err
                | Inr sl \<Rightarrow>
               (case toFixed (fmul baseExtremeEvents (RegionalFactors.extremeEvents factors)) 1 of
                  Inl err \<Rightarrow> Inl err
                | Inr ee \<Rightarrow>
                    Inr \<lparr>temperature = t, precipitation = p,
                         seaLevel = sl, extremeEvents = ee\<rparr>)))))"

text \<open>
  What the component hands to its widgets for a selected region and year: the metrics for
  the four cards, the series of the temperature chart and the series of the CO2 chart.
\<close>

record DashboardView =
  metrics :: ProjectedMetrics
  historicalData :: "HistoricalPoint list"
  areaChartData :: "CO2Point list"

definition ClimateAIDashboard :: "Region \<Rightarrow> number \<Rightarrow> error + DashboardView" where
  "ClimateAIDashboard selectedRegion selectedYear =
     (case calculateMetrics selectedYear selectedRegion of
        Inl err \<Rightarrow> Inl err
      | Inr ms \<Rightarrow>
          (case getRegionalHistoricalData selectedRegion of
             Inl err \<Rightarrow> Inl err
           | Inr hs \<Rightarrow> Inr \<lparr>metrics = ms, historicalData = hs, areaChartData = co2Data\<rparr>))"

section \<open>The contract of the two functions\<close>

text \<open>
  The transformer in the words of its contract: every point of the base sequence with its
  temperature multiplied by the factor and rounded to two decimal digits, that is, replaced
  by the number nearest to the nearest multiple of 1/100.
\<close>

definition spec_roundedTo2Decimals :: "number \<Rightarrow> number" where
  "spec_roundedTo2Decimals v =
     (case v of
        Finite s m e \<Rightarrow> roundToDouble (s \<and> m \<noteq> 0) (scaledRound m e 100 1) 100 0
      | _ \<Rightarrow> v)"

definition spec_historicalTransform :: "number \<Rightarrow> HistoricalPoint list" where
  "spec_historicalTransform factor =
     map (\<lambda>data. data\<lparr>HistoricalPoint.temperature :=
            spec_roundedTo2Decimals (fmul (HistoricalPoint.temperature data) factor)\<rparr>)
       baseHistoricalData"

text \<open>The formulas of the projector as its contract writes them.\<close>

definition spec_yearDiff :: "number \<Rightarrow> number" where
  "spec_yearDiff yr = fsub yr (lit 2023 1)"

definition spec_baseTemp :: "number \<Rightarrow> number" where
  "spec_baseTemp yearDiff =
     fadd (lit 11 10)
       (fdiv (fmul yearDiff (fsub (lit 16 10) (lit 11 10))) (fsub (lit 2050 1) (lit 2023 1)))"

definition spec_basePrecip :: "number \<Rightarrow> number" where
  "spec_basePrecip yearDiff = fdiv (fmul yearDiff (lit 53 10)) (fsub (lit 2050 1) (lit 2023 1))"

definition spec_baseSeaLevel :: "number \<Rightarrow> number" where
  "spec_baseSeaLevel yearDiff = fdiv (fmul yearDiff (lit 263 10)) (fsub (lit 2050 1) (lit 2023 1))"

definition spec_baseExtreme :: "number \<Rightarrow> number" where
  "spec_baseExtreme yearDiff = fdiv (fmul yearDiff (lit 32 1)) (fsub (lit 2050 1) (lit 2023 1))"

text \<open>The four products of the projector, from the formulas of its contract.\<close>

definition spec_temperature :: "number \<Rightarrow> RegionalFactors \<Rightarrow> number" where
  "spec_temperature yr factors =
     fmul (spec_baseTemp (spec_yearDiff yr)) (RegionalFactors.temperature factors)"

definition spec_precipitation :: "number \<Rightarrow> RegionalFactors \<Rightarrow> number" where
  "spec_precipitation yr factors =
     fmul (spec_basePrecip (spec_yearDiff yr)) (RegionalFactors.precipitation factors)"

definition spec_seaLevel :: "number \<Rightarrow> RegionalFactors \<Rightarrow> number" where
  "spec_seaLevel yr factors =
     fmul (spec_baseSeaLevel (spec_yearDiff yr)) (RegionalFactors.seaLevel factors)"

definition spec_extremeEvents :: "number \<Rightarrow> RegionalFactors \<Rightarrow> number" where
  "spec_extremeEvents yr factors =
     fmul (spec_baseExtreme (spec_yearDiff yr)) (RegionalFactors.extremeEvents factors)"

text \<open>
  A number formatted with exactly one digit after the decimal point: the sign, the digits
  of the integer part and one digit of the multiple of 1/10 nearest to the magnitude.
\<close>

definition spec_oneDecimal :: "number \<Rightarrow> string" where
  "spec_oneDecimal v =
     (case v of
        Finite s m e \<Rightarrow>
          (let n = scaledRound m e 10 1
           in (if s \<and> m \<noteq> 0 then ''-'' else [])
              @ decimalDigits (n div 10) @ ''.'' @ decimalDigits (n mod 10))
      | _ \<Rightarrow> [])"

text \<open>The strings of that shape: an optional minus sign, one digit or more, a point, one digit.\<close>

definition isOneDecimal :: "string \<Rightarrow> bool" where
  "isOneDecimal str =
     (case rev (if take 1 str = ''-'' then drop 1 str else str) of
        d # p # ds \<Rightarrow> isDigit d \<and> p = CHR ''.'' \<and> ds \<noteq> [] \<and> list_all isDigit ds
      | _ \<Rightarrow> False)"

section \<open>The temperature as a number\<close>

text \<open>The numeric value of the temperature that \<open>calculateMetrics\<close> returns for a year.\<close>

definition projectedTemperature :: "int \<Rightarrow> Region \<Rightarrow> number" where
  "projectedTemperature y region =
     (case calculateMetrics (ofInt y) region of
        Inr ms \<Rightarrow> StringToNumber (temperature ms)
      | Inl err \<Rightarrow> NaN)"

text \<open>The same value from the temperature factor alone: the other three fields play no part.\<close>

definition temperatureFor :: "number \<Rightarrow> int \<Rightarrow> number" where
  "temperatureFor factor y =
     (case toFixed (fmul (spec_baseTemp (spec_yearDiff (ofInt y))) factor) 1 of
        Inr s \<Rightarrow> StringToNumber s
      | Inl err \<Rightarrow> NaN)"

section \<open>Magnitudes\<close>

text \<open>The finite numbers of a magnitude below \<open>10^21\<close>.\<close>

definition below10pow21 :: "number \<Rightarrow> bool" where
  "below10pow21 v = (case v of Finite s m e \<Rightarrow> 0 \<le> m \<and> \<not> atLeast10pow21 m e | _ \<Rightarrow> False)"

text \<open>The finite numbers of a magnitude of at most \<open>2^K\<close>.\<close>

definition atMostPow2 :: "nat \<Rightarrow> number \<Rightarrow> bool" where
  "atMostPow2 K v =
     (case v of
        Finite s m e \<Rightarrow> 0 \<le> m \<and> m * 2 ^ nat e \<le> 2 ^ K * 2 ^ nat (- e)
      | _ \<Rightarrow> False)"

text \<open>The finite numbers of a value of at least 1.\<close>

definition atLeastOne :: "number \<Rightarrow> bool" where
  "atLeastOne v =
     (case v of
        Finite s m e \<Rightarrow> \<not> s \<and> 0 < m \<and> 2 ^ nat (- e) \<le> m * 2 ^ nat e
      | _ \<Rightarrow> False)"

section \<open>The number model on known values\<close>

text \<open>Values of the language that are well known, evaluated in the model.\<close>

lemma number_examples:
  "NumberToString (fadd (lit 1 10) (lit 2 10)) = ''0.30000000000000004''"
  "fsub (lit 16 10) (lit 11 10) = lit 5 10"
  "fdiv (lit 1 1) (lit 0 1) = Infinite False"
  "fmul (lit 2 1) (lit (10 ^ 308) 1) = Infinite False"
  "NumberToString (lit (10 ^ 21) 1) = ''1e+21''"
  "NumberToString (lit 123456 1000) = ''123.456''"
  "NumberToString (lit 1 10000000) = ''1e-7''"
  "toFixed (lit 1005 1000) 2 = Inr ''1.00''"
  "toFixed (lit 25 10) 0 = Inr ''3''"
  "toFixed (fneg (lit 25 10)) 0 = Inr ''-3''"
  "toFixed (lit 265 100) 1 = Inr ''2.6''"
  "toFixed (fneg (lit 4 100)) 1 = Inr ''-0.0''"
  "toFixed (lit (10 ^ 21) 1) 1 = Inr ''1e+21''"
  "toFixed (lit 1 1) 101 = Inl RangeError"
  "StringToNumber ''1.43'' = lit 143 100"
  "StringToNumber ''-0.26'' = fneg (lit 26 100)"
  "StringToNumber ''3.2e+21'' = lit 3200000000000000000000 1"
  "StringToNumber ''1.6C'' = NaN"
  by code_simp+

section \<open>Totality\<close>

lemma toFixed_Inr:
  assumes "0 \<le> f" and "f \<le> 100"
  shows "\<exists>s. toFixed v f = Inr s"
  using assms by (cases v) (simp_all add: toFixed_def Let_def)

lemma regionalFactors_total: "\<exists>factors. map_of regionalFactors region = Some factors"
  by (cases region) (simp_all add: regionalFactors_def)

text \<open>The record that \<open>calculateMetrics\<close> returns, field by field.\<close>

lemma calculateMetrics_fields:
  assumes "map_of regionalFactors region = Some factors"
  shows "\<exists>ms. calculateMetrics yr region = Inr ms
    \<and> toFixed (fmul (spec_baseTemp (spec_yearDiff yr)) (RegionalFactors.temperature factors)) 1
        = Inr (temperature ms)
    \<and> toFixed (fmul (spec_basePrecip (spec_yearDiff yr)) (RegionalFactors.precipitation factors)) 1
        = Inr (precipitation ms)
    \<and> toFixed (fmul (spec_baseSeaLevel (spec_yearDiff yr)) (RegionalFactors.seaLevel factors)) 1
        = Inr (seaLevel ms)
    \<and> toFixed (fmul (spec_baseExtreme (spec_yearDiff yr)) (RegionalFactors.extremeEvents factors)) 1
        = Inr (extremeEvents ms)"
proof -
  have ok: "\<And>v. \<exists>s. toFixed v 1 = Inr s"
    by (rule toFixed_Inr) simp_all
  obtain t where t: "toFixed (fmul (spec_baseTemp (spec_yearDiff yr))
      (RegionalFactors.temperature factors)) 1 = Inr t"
    using ok by blast
  obtain p where p: "toFixed (fmul (spec_basePrecip (spec_yearDiff yr))
      (RegionalFactors.precipitation factors)) 1 = Inr p"
    using ok by blast
  obtain sl where sl: "toFixed (fmul (spec_baseSeaLevel (spec_yearDiff yr))
      (RegionalFactors.seaLevel factors)) 1 = Inr sl"
    using ok by blast
  obtain ee where ee: "toFixed (fmul (spec_baseExtreme (spec_yearDiff yr))
      (RegionalFactors.extremeEvents factors)) 1 = Inr ee"
    using ok by blast
  have "calculateMetrics yr region =
      Inr \<lparr>temperature = t, precipitation = p, seaLevel = sl, extremeEvents = ee\<rparr>"
    using t p sl ee
    unfolding calculateMetrics_def Let_def assms spec_yearDiff_def spec_baseTemp_def
      spec_basePrecip_def spec_baseSeaLevel_def spec_baseExtreme_def
    by simp
  then show ?thesis
    using t p sl ee by simp
qed

lemma calculateMetrics_Inr: "\<exists>ms. calculateMetrics yr region = Inr ms"
  using regionalFactors_total [of region] calculateMetrics_fields [of region _ yr] by blast

text \<open>
  C4. The metric projector is total: for every year, inside or outside 2023..2050, and
  every region, \<open>calculateMetrics\<close> returns a record of metrics and raises no error.
  It holds for every number whatsoever, so for the number of every integer year.
\<close>

theorem calculateMetrics_total:
  "\<forall>y region. \<exists>ms. calculateMetrics (ofInt y) region = Inr ms"
  using calculateMetrics_Inr by blast

section \<open>Evaluation\<close>

text \<open>The two tables with their literals rounded; the evaluations below start from these.\<close>

lemma regionalFactors_eval [code]:
  "regionalFactors =
     [(Global,
         \<lparr>RegionalFactors.temperature = Finite False 4503599627370496 (- 52),
          precipitation = Finite False 4503599627370496 (- 52),
          seaLevel = Finite False 4503599627370496 (- 52),
          extremeEvents = Finite False 4503599627370496 (- 52)\<rparr>),
      (NorthAmerica,
         \<lparr>RegionalFactors.temperature = Finite False 5404319552844595 (- 52),
          precipitation = Finite False 5854679515581645 (- 52),
          seaLevel = Finite False 7205759403792794 (- 53),
          extremeEvents = Finite False 4953959590107546 (- 52)\<rparr>),
      (Europe,
         \<lparr>RegionalFactors.temperature = Finite False 4953959590107546 (- 52),
          precipitation = Finite False 5404319552844595 (- 52),
          seaLevel = Finite False 8106479329266893 (- 53),
          extremeEvents = Finite False 5404319552844595 (- 52)\<rparr>),
      (Asia,
         \<lparr>RegionalFactors.temperature = Finite False 5854679515581645 (- 52),
          precipitation = Finite False 6305039478318694 (- 52),
          seaLevel = Finite False 5404319552844595 (- 52),
          extremeEvents = Finite False 5854679515581645 (- 52)\<rparr>),
      (Africa,
         \<lparr>RegionalFactors.temperature = Finite False 6305039478318694 (- 52),
          precipitation = Finite False 6305039478318694 (- 53),
          seaLevel = Finite False 4953959590107546 (- 52),
          extremeEvents = Finite False 6305039478318694 (- 52)\<rparr>),
      (SouthAmerica,
         \<lparr>RegionalFactors.temperature = Finite False 4953959590107546 (- 52),
          precipitation = Finite False 6755399441055744 (- 52),
          seaLevel = Finite False 4503599627370496 (- 52),
          extremeEvents = Finite False 5404319552844595 (- 52)\<rparr>),
      (Oceania,
         \<lparr>RegionalFactors.temperature = Finite False 5404319552844595 (- 52),
          precipitation = Finite False 8106479329266893 (- 53),
          seaLevel = Finite False 5854679515581645 (- 52),
          extremeEvents = Finite False 4953959590107546 (- 52)\<rparr>)]"
  unfolding regionalFactors_def by code_simp

lemma baseHistoricalData_eval [code]:
  "baseHistoricalData =
     [\<lparr>HistoricalPoint.year = 1900, temperature = Finite True 7205759403792794 (- 55)\<rparr>,
      \<lparr>HistoricalPoint.year = 1950, temperature = Finite False 0 0\<rparr>,
      \<lparr>HistoricalPoint.year = 2000, temperature = Finite False 4503599627370496 (- 53)\<rparr>,
      \<lparr>HistoricalPoint.year = 2023, temperature = Finite False 4953959590107546 (- 52)\<rparr>,
      \<lparr>HistoricalPoint.year = 2030, temperature = Finite False 5854679515581645 (- 52)\<rparr>,
      \<lparr>HistoricalPoint.year = 2040, temperature = Finite False 6305039478318694 (- 52)\<rparr>,
      \<lparr>HistoricalPoint.year = 2050, temperature = Finite False 7205759403792794 (- 52)\<rparr>]"
  unfolding baseHistoricalData_def by code_simp

text \<open>The series of every region, each temperature written as the decimal it is nearest to.\<close>

lemma historical_Global:
  "getRegionalHistoricalData Global =
     Inr [\<lparr>HistoricalPoint.year = 1900, temperature = fneg (lit 20 100)\<rparr>,
          \<lparr>HistoricalPoint.year = 1950, temperature = lit 0 1\<rparr>,
          \<lparr>HistoricalPoint.year = 2000, temperature = lit 50 100\<rparr>,
          \<lparr>HistoricalPoint.year = 2023, temperature = lit 110 100\<rparr>,
          \<lparr>HistoricalPoint.year = 2030, temperature = lit 130 100\<rparr>,
          \<lparr>HistoricalPoint.year = 2040, temperature = lit 140 100\<rparr>,
          \<lparr>HistoricalPoint.year = 2050, temperature = lit 160 100\<rparr>]"
  by code_simp

lemma historical_NorthAmerica:
  "getRegionalHistoricalData NorthAmerica =
     Inr [\<lparr>HistoricalPoint.year = 1900, temperature = fneg (lit 24 100)\<rparr>,
          \<lparr>HistoricalPoint.year = 1950, temperature = lit 0 1\<rparr>,
          \<lparr>HistoricalPoint.year = 2000, temperature = lit 60 100\<rparr>,
          \<lparr>HistoricalPoint.year = 2023, temperature = lit 132 100\<rparr>,
          \<lparr>HistoricalPoint.year = 2030, temperature = lit 156 100\<rparr>,
          \<lparr>HistoricalPoint.year = 2040, temperature = lit 168 100\<rparr>,
          \<lparr>HistoricalPoint.year = 2050, temperature = lit 192 100\<rparr>]"
  by code_simp

lemma historical_Europe:
  "getRegionalHistoricalData Europe =
     Inr [\<lparr>HistoricalPoint.year = 1900, temperature = fneg (lit 22 100)\<rparr>,
          \<lparr>HistoricalPoint.year = 1950, temperature = lit 0 1\<rparr>,
          \<lparr>HistoricalPoint.year = 2000, temperature = lit 55 100\<rparr>,
          \<lparr>HistoricalPoint.year = 2023, temperature = lit 121 100\<rparr>,
          \<lparr>HistoricalPoint.year = 2030, temperature = lit 143 100\<rparr>,
          \<lparr>HistoricalPoint.year = 2040, temperature = lit 154 100\<rparr>,
          \<lparr>HistoricalPoint.year = 2050, temperature = lit 176 100\<rparr>]"
  by code_simp

lemma historical_Asia:
  "getRegionalHistoricalData Asia =
     Inr [\<lparr>HistoricalPoint.year = 1900, temperature = fneg (lit 26 100)\<rparr>,
          \<lparr>HistoricalPoint.year = 1950, temperature = lit 0 1\<rparr>,
          \<lparr>HistoricalPoint.year = 2000, temperature = lit 65 100\<rparr>,
          \<lparr>HistoricalPoint.year = 2023, temperature = lit 143 100\<rparr>,
          \<lparr>HistoricalPoint.year = 2030, temperature = lit 169 100\<rparr>,
          \<lparr>HistoricalPoint.year = 2040, temperature = lit 182 100\<rparr>,
          \<lparr>HistoricalPoint.year = 2050, temperature = lit 208 100\<rparr>]"
  by code_simp

lemma historical_Africa:
  "getRegionalHistoricalData Africa =
     Inr [\<lparr>HistoricalPoint.year = 1900, temperature = fneg (lit 28 100)\<rparr>,
          \<lparr>HistoricalPoint.year = 1950, temperature = lit 0 1\<rparr>,
          \<lparr>HistoricalPoint.year = 2000, temperature = lit 70 100\<rparr>,
          \<lparr>HistoricalPoint.year = 2023, temperature = lit 154 100\<rparr>,
          \<lparr>HistoricalPoint.year = 2030, temperature = lit 182 100\<rparr>,
          \<lparr>HistoricalPoint.year = 2040, temperature = lit 196 100\<rparr>,
          \<lparr>HistoricalPoint.year = 2050, temperature = lit 224 100\<rparr>]"
  by code_simp

lemma historical_SouthAmerica:
  "getRegionalHistoricalData SouthAmerica =
     Inr [\<lparr>HistoricalPoint.year = 1900, temperature = fneg (lit 22 100)\<rparr>,
          \<lparr>HistoricalPoint.year = 1950, temperature = lit 0 1\<rparr>,
          \<lparr>HistoricalPoint.year = 2000, temperature = lit 55 100\<rparr>,
          \<lparr>HistoricalPoint.year = 2023, temperature = lit 121 100\<rparr>,
          \<lparr>HistoricalPoint.year = 2030, temperature = lit 143 100\<rparr>,
          \<lparr>HistoricalPoint.year = 2040, temperature = lit 154 100\<rparr>,
          \<lparr>HistoricalPoint.year = 2050, temperature = lit 176 100\<rparr>]"
  by code_simp

lemma historical_Oceania:
  "getRegionalHistoricalData Oceania =
     Inr [\<lparr>HistoricalPoint.year = 1900, temperature = fneg (lit 24 100)\<rparr>,
          \<lparr>HistoricalPoint.year = 1950, temperature = lit 0 1\<rparr>,
          \<lparr>HistoricalPoint.year = 2000, temperature = lit 60 100\<rparr>,
          \<lparr>HistoricalPoint.year = 2023, temperature = lit 132 100\<rparr>,
          \<lparr>HistoricalPoint.year = 2030, temperature = lit 156 100\<rparr>,
          \<lparr>HistoricalPoint.year = 2040, temperature = lit 168 100\<rparr>,
          \<lparr>HistoricalPoint.year = 2050, temperature = lit 192 100\<rparr>]"
  by code_simp

text \<open>The constants of \<open>calculateMetrics\<close>, and the function with them in place.\<close>

lemma calculateMetrics_constants:
  "lit 2023 1 = Finite False 8897248091963392 (- 42)"
  "lit 11 10 = Finite False 4953959590107546 (- 52)"
  "fsub (lit 16 10) (lit 11 10) = Finite False 4503599627370496 (- 53)"
  "fsub (lit 2050 1) (lit 2023 1) = Finite False 7599824371187712 (- 48)"
  "lit 53 10 = Finite False 5967269506265907 (- 50)"
  "lit 263 10 = Finite False 7402791887490253 (- 48)"
  "lit 32 1 = Finite False 4503599627370496 (- 47)"
  by code_simp+

lemmas calculateMetrics_code [code] = calculateMetrics_def [unfolded calculateMetrics_constants]

text \<open>The entry of every region, as the source writes it.\<close>

lemma factors_Global:
  "map_of regionalFactors Global =
     Some \<lparr>RegionalFactors.temperature = lit 1 1, precipitation = lit 1 1,
           seaLevel = lit 1 1, extremeEvents = lit 1 1\<rparr>"
  by (simp add: regionalFactors_def)

lemma factors_NorthAmerica:
  "map_of regionalFactors NorthAmerica =
     Some \<lparr>RegionalFactors.temperature = lit 12 10, precipitation = lit 13 10,
           seaLevel = lit 8 10, extremeEvents = lit 11 10\<rparr>"
  by (simp add: regionalFactors_def)

lemma factors_Europe:
  "map_of regionalFactors Europe =
     Some \<lparr>RegionalFactors.temperature = lit 11 10, precipitation = lit 12 10,
           seaLevel = lit 9 10, extremeEvents = lit 12 10\<rparr>"
  by (simp add: regionalFactors_def)

lemma factors_Asia:
  "map_of regionalFactors Asia =
     Some \<lparr>RegionalFactors.temperature = lit 13 10, precipitation = lit 14 10,
           seaLevel = lit 12 10, extremeEvents = lit 13 10\<rparr>"
  by (simp add: regionalFactors_def)

lemma factors_Africa:
  "map_of regionalFactors Africa =
     Some \<lparr>RegionalFactors.temperature = lit 14 10, precipitation = lit 7 10,
           seaLevel = lit 11 10, extremeEvents = lit 14 10\<rparr>"
  by (simp add: regionalFactors_def)

lemma factors_SouthAmerica:
  "map_of regionalFactors SouthAmerica =
     Some \<lparr>RegionalFactors.temperature = lit 11 10, precipitation = lit 15 10,
           seaLevel = lit 10 10, extremeEvents = lit 12 10\<rparr>"
  by (simp add: regionalFactors_def)

lemma factors_Oceania:
  "map_of regionalFactors Oceania =
     Some \<lparr>RegionalFactors.temperature = lit 12 10, precipitation = lit 9 10,
           seaLevel = lit 13 10, extremeEvents = lit 11 10\<rparr>"
  by (simp add: regionalFactors_def)
section \<open>The factor table\<close>

lemma regions_complete: "region \<in> set regions"
  by (cases region) (simp_all add: regions_def)

lemma regionalFactors_keys: "map fst regionalFactors = regions"
  by (simp add: regionalFactors_def regions_def)

lemma regionalFactors_once:
  "length (filter (\<lambda>entry. fst entry = region) regionalFactors) = 1"
  by (cases region) (simp_all add: regionalFactors_def)

lemma regionalFactors_positive:
  "list_all (\<lambda>entry. positive (RegionalFactors.temperature (snd entry))
        \<and> positive (RegionalFactors.precipitation (snd entry))
        \<and> positive (RegionalFactors.seaLevel (snd entry))
        \<and> positive (RegionalFactors.extremeEvents (snd entry))) regionalFactors"
  by code_simp

text \<open>
  C8. Each of the seven regions is a key of the factor table exactly once, every factor of
  every entry is a positive real number, and so the lookup is total on the regions.
\<close>

theorem regionalFactors_table:
  "length regions = 7 \<and> distinct regions \<and> (\<forall>region. region \<in> set regions)
   \<and> map fst regionalFactors = regions
   \<and> (\<forall>region. length (filter (\<lambda>entry. fst entry = region) regionalFactors) = 1)
   \<and> list_all (\<lambda>entry. positive (RegionalFactors.temperature (snd entry))
        \<and> positive (RegionalFactors.precipitation (snd entry))
        \<and> positive (RegionalFactors.seaLevel (snd entry))
        \<and> positive (RegionalFactors.extremeEvents (snd entry))) regionalFactors
   \<and> (\<forall>region. \<exists>factors. map_of regionalFactors region = Some factors)"
proof -
  have "length regions = 7" and "distinct regions"
    by (simp_all add: regions_def)
  then show ?thesis
    using regions_complete regionalFactors_keys regionalFactors_once
      regionalFactors_positive regionalFactors_total
    by blast
qed

section \<open>The projector at the two ends of the range\<close>

text \<open>
  C3. \<open>calculateMetrics(2050, 'Global')\<close> is temperature "1.6", precipitation "5.3",
  seaLevel "26.3" and extremeEvents "32.0".
\<close>

theorem calculateMetrics_2050_Global:
  "calculateMetrics (ofInt 2050) Global =
     Inr \<lparr>temperature = ''1.6'', precipitation = ''5.3'',
          seaLevel = ''26.3'', extremeEvents = ''32.0''\<rparr>"
  by code_simp

text \<open>The metrics of the base year, region by region.\<close>

lemma metrics_2023_Global:
  "calculateMetrics (ofInt 2023) Global =
     Inr \<lparr>temperature = ''1.1'', precipitation = ''0.0'',
          seaLevel = ''0.0'', extremeEvents = ''0.0''\<rparr>"
  by code_simp

lemma metrics_2023_NorthAmerica:
  "calculateMetrics (ofInt 2023) NorthAmerica =
     Inr \<lparr>temperature = ''1.3'', precipitation = ''0.0'',
          seaLevel = ''0.0'', extremeEvents = ''0.0''\<rparr>"
  by code_simp

lemma metrics_2023_Europe:
  "calculateMetrics (ofInt 2023) Europe =
     Inr \<lparr>temperature = ''1.2'', precipitation = ''0.0'',
          seaLevel = ''0.0'', extremeEvents = ''0.0''\<rparr>"
  by code_simp

lemma metrics_2023_Asia:
  "calculateMetrics (ofInt 2023) Asia =
     Inr \<lparr>temperature = ''1.4'', precipitation = ''0.0'',
          seaLevel = ''0.0'', extremeEvents = ''0.0''\<rparr>"
  by code_simp

lemma metrics_2023_Africa:
  "calculateMetrics (ofInt 2023) Africa =
     Inr \<lparr>temperature = ''1.5'', precipitation = ''0.0'',
          seaLevel = ''0.0'', extremeEvents = ''0.0''\<rparr>"
  by code_simp

lemma metrics_2023_SouthAmerica:
  "calculateMetrics (ofInt 2023) SouthAmerica =
     Inr \<lparr>temperature = ''1.2'', precipitation = ''0.0'',
          seaLevel = ''0.0'', extremeEvents = ''0.0''\<rparr>"
  by code_simp

lemma metrics_2023_Oceania:
  "calculateMetrics (ofInt 2023) Oceania =
     Inr \<lparr>temperature = ''1.3'', precipitation = ''0.0'',
          seaLevel = ''0.0'', extremeEvents = ''0.0''\<rparr>"
  by code_simp

text \<open>The baseline temperature 1.1 scaled by each temperature factor, with one digit.\<close>

lemma baseline_scaled:
  "toFixed (fmul (lit 11 10) (lit 1 1)) 1 = Inr ''1.1''"
  "toFixed (fmul (lit 11 10) (lit 11 10)) 1 = Inr ''1.2''"
  "toFixed (fmul (lit 11 10) (lit 12 10)) 1 = Inr ''1.3''"
  "toFixed (fmul (lit 11 10) (lit 13 10)) 1 = Inr ''1.4''"
  "toFixed (fmul (lit 11 10) (lit 14 10)) 1 = Inr ''1.5''"
  by code_simp+

text \<open>
  C6. In the base year 2023 the year difference is zero: the temperature of every region
  is 1.1 times the temperature factor of the region, with one digit after the point,
  and precipitation, seaLevel and extremeEvents are all "0.0".
\<close>

theorem calculateMetrics_2023:
  "\<forall>region. \<exists>factors ms.
     map_of regionalFactors region = Some factors
     \<and> calculateMetrics (ofInt 2023) region = Inr ms
     \<and> toFixed (fmul (lit 11 10) (RegionalFactors.temperature factors)) 1 = Inr (temperature ms)
     \<and> precipitation ms = ''0.0'' \<and> seaLevel ms = ''0.0'' \<and> extremeEvents ms = ''0.0''"
proof
  fix region
  show "\<exists>factors ms.
     map_of regionalFactors region = Some factors
     \<and> calculateMetrics (ofInt 2023) region = Inr ms
     \<and> toFixed (fmul (lit 11 10) (RegionalFactors.temperature factors)) 1 = Inr (temperature ms)
     \<and> precipitation ms = ''0.0'' \<and> seaLevel ms = ''0.0'' \<and> extremeEvents ms = ''0.0''"
  proof (cases region)

    case Global
    then show ?thesis
      by (simp add: factors_Global metrics_2023_Global baseline_scaled)
    next
    case NorthAmerica
    then show ?thesis
      by (simp add: factors_NorthAmerica metrics_2023_NorthAmerica baseline_scaled)
    next
    case Europe
    then show ?thesis
      by (simp add: factors_Europe metrics_2023_Europe baseline_scaled)
    next
    case Asia
    then show ?thesis
      by (simp add: factors_Asia metrics_2023_Asia baseline_scaled)
    next
    case Africa
    then show ?thesis
      by (simp add: factors_Africa metrics_2023_Africa baseline_scaled)
    next
    case SouthAmerica
    then show ?thesis
      by (simp add: factors_SouthAmerica metrics_2023_SouthAmerica baseline_scaled)
    next
    case Oceania
    then show ?thesis
      by (simp add: factors_Oceania metrics_2023_Oceania baseline_scaled)
  qed
qed

section \<open>The historical series\<close>

lemma spec_historicalTransform_years:
  "map HistoricalPoint.year (spec_historicalTransform factor)
     = map HistoricalPoint.year baseHistoricalData"
  by (simp add: spec_historicalTransform_def comp_def)

lemma spec_historicalTransform_length:
  "length (spec_historicalTransform factor) = 7"
  by (simp add: spec_historicalTransform_def baseHistoricalData_def)

lemma historical_transformed:
  "getRegionalHistoricalData Global = Inr (spec_historicalTransform (lit 1 1))"
  "getRegionalHistoricalData NorthAmerica = Inr (spec_historicalTransform (lit 12 10))"
  "getRegionalHistoricalData Europe = Inr (spec_historicalTransform (lit 11 10))"
  "getRegionalHistoricalData Asia = Inr (spec_historicalTransform (lit 13 10))"
  "getRegionalHistoricalData Africa = Inr (spec_historicalTransform (lit 14 10))"
  "getRegionalHistoricalData SouthAmerica = Inr (spec_historicalTransform (lit 11 10))"
  "getRegionalHistoricalData Oceania = Inr (spec_historicalTransform (lit 12 10))"
  by code_simp+

lemma historical_transformed_region:
  "\<exists>factors. map_of regionalFactors region = Some factors
     \<and> getRegionalHistoricalData region
         = Inr (spec_historicalTransform (RegionalFactors.temperature factors))"
  by (cases region)
    (simp_all add: historical_transformed factors_Global factors_NorthAmerica factors_Europe
      factors_Asia factors_Africa factors_SouthAmerica factors_Oceania)

text \<open>
  C2. For every region the transformer returns the seven points of the base sequence, in
  their order and with their years, each temperature multiplied by the temperature factor
  of the region and rounded to two decimal digits. For Asia the factor is 1.3, and the
  point of 2023 goes from 1.1 to 1.43.
\<close>

theorem getRegionalHistoricalData_scaled:
  "(\<forall>region. \<exists>factors hs.
      map_of regionalFactors region = Some factors
      \<and> getRegionalHistoricalData region = Inr hs
      \<and> hs = spec_historicalTransform (RegionalFactors.temperature factors)
      \<and> map HistoricalPoint.year hs = map HistoricalPoint.year baseHistoricalData
      \<and> length hs = 7 \<and> length baseHistoricalData = 7)
   \<and> (\<exists>factors hs.
      map_of regionalFactors Asia = Some factors
      \<and> RegionalFactors.temperature factors = lit 13 10
      \<and> getRegionalHistoricalData Asia = Inr hs
      \<and> baseHistoricalData ! 3 = \<lparr>HistoricalPoint.year = 2023, temperature = lit 11 10\<rparr>
      \<and> hs ! 3 = \<lparr>HistoricalPoint.year = 2023, temperature = lit 143 100\<rparr>)"
proof (intro conjI allI)
  fix region
  obtain factors where
    "map_of regionalFactors region = Some factors"
    "getRegionalHistoricalData region
       = Inr (spec_historicalTransform (RegionalFactors.temperature factors))"
    using historical_transformed_region by blast
  then show "\<exists>factors hs.
      map_of regionalFactors region = Some factors
      \<and> getRegionalHistoricalData region = Inr hs
      \<and> hs = spec_historicalTransform (RegionalFactors.temperature factors)
      \<and> map HistoricalPoint.year hs = map HistoricalPoint.year baseHistoricalData
      \<and> length hs = 7 \<and> length baseHistoricalData = 7"
    using spec_historicalTransform_years spec_historicalTransform_length
    by (simp add: baseHistoricalData_def)
next
  show "\<exists>factors hs.
      map_of regionalFactors Asia = Some factors
      \<and> RegionalFactors.temperature factors = lit 13 10
      \<and> getRegionalHistoricalData Asia = Inr hs
      \<and> baseHistoricalData ! 3 = \<lparr>HistoricalPoint.year = 2023, temperature = lit 11 10\<rparr>
      \<and> hs ! 3 = \<lparr>HistoricalPoint.year = 2023, temperature = lit 143 100\<rparr>"
    by (simp add: factors_Asia historical_Asia baseHistoricalData_def)
qed

text \<open>
  C7. \<open>getRegionalHistoricalData('Global')\<close> is the base historical sequence, point for
  point.
\<close>

theorem getRegionalHistoricalData_Global:
  "getRegionalHistoricalData Global = Inr baseHistoricalData"
  by code_simp

text \<open>The temperatures of every series, in the order of the sequence.\<close>

lemma ascending_Global:
  "\<exists>hs. getRegionalHistoricalData Global = Inr hs
     \<and> sorted_wrt num_le (map HistoricalPoint.temperature hs)"
  by (rule exI, rule conjI, rule historical_Global) code_simp

lemma ascending_NorthAmerica:
  "\<exists>hs. getRegionalHistoricalData NorthAmerica = Inr hs
     \<and> sorted_wrt num_le (map HistoricalPoint.temperature hs)"
  by (rule exI, rule conjI, rule historical_NorthAmerica) code_simp

lemma ascending_Europe:
  "\<exists>hs. getRegionalHistoricalData Europe = Inr hs
     \<and> sorted_wrt num_le (map HistoricalPoint.temperature hs)"
  by (rule exI, rule conjI, rule historical_Europe) code_simp

lemma ascending_Asia:
  "\<exists>hs. getRegionalHistoricalData Asia = Inr hs
     \<and> sorted_wrt num_le (map HistoricalPoint.temperature hs)"
  by (rule exI, rule conjI, rule historical_Asia) code_simp

lemma ascending_Africa:
  "\<exists>hs. getRegionalHistoricalData Africa = Inr hs
     \<and> sorted_wrt num_le (map HistoricalPoint.temperature hs)"
  by (rule exI, rule conjI, rule historical_Africa) code_simp

lemma ascending_SouthAmerica:
  "\<exists>hs. getRegionalHistoricalData SouthAmerica = Inr hs
     \<and> sorted_wrt num_le (map HistoricalPoint.temperature hs)"
  by (rule exI, rule conjI, rule historical_SouthAmerica) code_simp

lemma ascending_Oceania:
  "\<exists>hs. getRegionalHistoricalData Oceania = Inr hs
     \<and> sorted_wrt num_le (map HistoricalPoint.temperature hs)"
  by (rule exI, rule conjI, rule historical_Oceania) code_simp

text \<open>
  C10. For every region the temperatures of the returned sequence do not decrease along
  the sequence.
\<close>

theorem getRegionalHistoricalData_ascending:
  "\<forall>region. \<exists>hs. getRegionalHistoricalData region = Inr hs
     \<and> sorted_wrt num_le (map HistoricalPoint.temperature hs)"
proof
  fix region
  show "\<exists>hs. getRegionalHistoricalData region = Inr hs
     \<and> sorted_wrt num_le (map HistoricalPoint.temperature hs)"
    using ascending_Global ascending_NorthAmerica ascending_Europe ascending_Asia
      ascending_Africa ascending_SouthAmerica ascending_Oceania
    by (cases region) simp_all
qed

section \<open>The CO2 series\<close>

lemma mapM_Inr:
  assumes "\<And>x. \<exists>y. f x = Inr y"
  shows "\<exists>ys. mapM f xs = Inr ys"
proof (induction xs)
  case Nil
  show ?case by simp
next
  case (Cons x xs)
  obtain y where "f x = Inr y"
    using assms by blast
  moreover obtain ys where "mapM f xs = Inr ys"
    using Cons.IH by blast
  ultimately show ?case by simp
qed

lemma scaleTemperature_Inr: "\<exists>p. scaleTemperature factor data = Inr p"
proof -
  obtain s where "toFixed (fmul (HistoricalPoint.temperature data) factor) 2 = Inr s"
    using toFixed_Inr [of 2] by auto
  then show ?thesis
    by (simp add: scaleTemperature_def)
qed

lemma getRegionalHistoricalData_Inr: "\<exists>hs. getRegionalHistoricalData region = Inr hs"
proof -
  obtain factors where "map_of regionalFactors region = Some factors"
    using regionalFactors_total by blast
  then show ?thesis
    using mapM_Inr [of "scaleTemperature (RegionalFactors.temperature factors)" baseHistoricalData]
      scaleTemperature_Inr
    by (simp add: getRegionalHistoricalData_def)
qed

text \<open>
  C9. Whatever region (and year) is selected, the component hands the same CO2 series to
  the chart: the constant sequence of seven points.
\<close>

theorem co2_independent_of_region:
  "\<forall>region1 region2 year1 year2. \<exists>view1 view2.
     ClimateAIDashboard region1 year1 = Inr view1
     \<and> ClimateAIDashboard region2 year2 = Inr view2
     \<and> areaChartData view1 = areaChartData view2
     \<and> areaChartData view1 = co2Data
     \<and> length (areaChartData view1) = 7"
proof (intro allI)
  fix region1 region2 year1 year2
  obtain ms1 hs1 ms2 hs2 where
    "calculateMetrics year1 region1 = Inr ms1" "getRegionalHistoricalData region1 = Inr hs1"
    "calculateMetrics year2 region2 = Inr ms2" "getRegionalHistoricalData region2 = Inr hs2"
    using calculateMetrics_Inr getRegionalHistoricalData_Inr by meson
  then show "\<exists>view1 view2.
     ClimateAIDashboard region1 year1 = Inr view1
     \<and> ClimateAIDashboard region2 year2 = Inr view2
     \<and> areaChartData view1 = areaChartData view2
     \<and> areaChartData view1 = co2Data
     \<and> length (areaChartData view1) = 7"
    by (simp add: ClimateAIDashboard_def co2Data_def)
qed
section \<open>The projected temperature over the years\<close>

lemmas temperatureFor_code [code] =
  temperatureFor_def [unfolded spec_baseTemp_def spec_yearDiff_def calculateMetrics_constants]

lemma projectedTemperature_factor:
  assumes "map_of regionalFactors region = Some factors"
  shows "projectedTemperature y region = temperatureFor (RegionalFactors.temperature factors) y"
proof -
  obtain ms where "calculateMetrics (ofInt y) region = Inr ms"
    and "toFixed (fmul (spec_baseTemp (spec_yearDiff (ofInt y)))
           (RegionalFactors.temperature factors)) 1 = Inr (temperature ms)"
    using calculateMetrics_fields [OF assms] by blast
  then show ?thesis
    by (simp add: projectedTemperature_def temperatureFor_def)
qed

text \<open>The values for the years 2023 to 2050, for each of the five temperature factors.\<close>

lemma temperatures_1_0:
  "map (temperatureFor (lit 1 1)) [2023..2050] =
     [lit 11 10, lit 11 10, lit 11 10, lit 12 10, lit 12 10, lit 12 10, lit 12 10,
      lit 12 10, lit 12 10, lit 13 10, lit 13 10, lit 13 10, lit 13 10, lit 13 10,
      lit 14 10, lit 14 10, lit 14 10, lit 14 10, lit 14 10, lit 15 10, lit 15 10,
      lit 15 10, lit 15 10, lit 15 10, lit 15 10, lit 16 10, lit 16 10, lit 16 10]"
  by code_simp

lemma temperatures_1_1:
  "map (temperatureFor (lit 11 10)) [2023..2050] =
     [lit 12 10, lit 12 10, lit 13 10, lit 13 10, lit 13 10, lit 13 10, lit 13 10,
      lit 14 10, lit 14 10, lit 14 10, lit 14 10, lit 14 10, lit 15 10, lit 15 10,
      lit 15 10, lit 15 10, lit 15 10, lit 16 10, lit 16 10, lit 16 10, lit 16 10,
      lit 16 10, lit 17 10, lit 17 10, lit 17 10, lit 17 10, lit 17 10, lit 18 10]"
  by code_simp

lemma temperatures_1_2:
  "map (temperatureFor (lit 12 10)) [2023..2050] =
     [lit 13 10, lit 13 10, lit 14 10, lit 14 10, lit 14 10, lit 14 10, lit 15 10,
      lit 15 10, lit 15 10, lit 15 10, lit 15 10, lit 16 10, lit 16 10, lit 16 10,
      lit 16 10, lit 17 10, lit 17 10, lit 17 10, lit 17 10, lit 17 10, lit 18 10,
      lit 18 10, lit 18 10, lit 18 10, lit 19 10, lit 19 10, lit 19 10, lit 19 10]"
  by code_simp

lemma temperatures_1_3:
  "map (temperatureFor (lit 13 10)) [2023..2050] =
     [lit 14 10, lit 15 10, lit 15 10, lit 15 10, lit 15 10, lit 16 10, lit 16 10,
      lit 16 10, lit 16 10, lit 16 10, lit 17 10, lit 17 10, lit 17 10, lit 17 10,
      lit 18 10, lit 18 10, lit 18 10, lit 18 10, lit 19 10, lit 19 10, lit 19 10,
      lit 19 10, lit 20 10, lit 20 10, lit 20 10, lit 20 10, lit 21 10, lit 21 10]"
  by code_simp

lemma temperatures_1_4:
  "map (temperatureFor (lit 14 10)) [2023..2050] =
     [lit 15 10, lit 16 10, lit 16 10, lit 16 10, lit 16 10, lit 17 10, lit 17 10,
      lit 17 10, lit 17 10, lit 18 10, lit 18 10, lit 18 10, lit 19 10, lit 19 10,
      lit 19 10, lit 19 10, lit 20 10, lit 20 10, lit 20 10, lit 20 10, lit 21 10,
      lit 21 10, lit 21 10, lit 21 10, lit 22 10, lit 22 10, lit 22 10, lit 22 10]"
  by code_simp

lemma ascending_series:
  "sorted_wrt num_le (map (temperatureFor (lit 1 1)) [2023..2050])
     \<and> list_all (\<lambda>v. num_le v v) (map (temperatureFor (lit 1 1)) [2023..2050])"
  "sorted_wrt num_le (map (temperatureFor (lit 11 10)) [2023..2050])
     \<and> list_all (\<lambda>v. num_le v v) (map (temperatureFor (lit 11 10)) [2023..2050])"
  "sorted_wrt num_le (map (temperatureFor (lit 12 10)) [2023..2050])
     \<and> list_all (\<lambda>v. num_le v v) (map (temperatureFor (lit 12 10)) [2023..2050])"
  "sorted_wrt num_le (map (temperatureFor (lit 13 10)) [2023..2050])
     \<and> list_all (\<lambda>v. num_le v v) (map (temperatureFor (lit 13 10)) [2023..2050])"
  "sorted_wrt num_le (map (temperatureFor (lit 14 10)) [2023..2050])
     \<and> list_all (\<lambda>v. num_le v v) (map (temperatureFor (lit 14 10)) [2023..2050])"
  unfolding temperatures_1_0 temperatures_1_1 temperatures_1_2 temperatures_1_3 temperatures_1_4
  by code_simp+

text \<open>From a sorted series over the years to any two years of the range.\<close>

lemma series_monotone:
  assumes "sorted_wrt P (map f [lo..hi]) \<and> list_all (\<lambda>v. P v v) (map f [lo..hi])"
    and "lo \<le> y1" and "y1 \<le> y2" and "y2 \<le> hi"
  shows "P (f y1) (f y2)"
proof -
  define i where "i = nat (y1 - lo)"
  define j where "j = nat (y2 - lo)"
  have ij: "i \<le> j" "j < length [lo..hi]"
    using assms(2-4) by (simp_all add: i_def j_def)
  have fi: "map f [lo..hi] ! i = f y1"
    using assms(2-4) ij by (simp add: i_def)
  have fj: "map f [lo..hi] ! j = f y2"
    using assms(2-4) ij by (simp add: j_def)
  show ?thesis
  proof (cases "i = j")
    case True
    then have "y1 = y2"
      using assms(2-4) by (simp add: i_def j_def)
    moreover have "P (map f [lo..hi] ! j) (map f [lo..hi] ! j)"
      using assms(1) ij(2) by (simp add: list_all_length del: nth_map)
    ultimately show ?thesis
      using fj by simp
  next
    case False
    then have "i < j"
      using ij(1) by simp
    then have "P (map f [lo..hi] ! i) (map f [lo..hi] ! j)"
      using assms(1) ij(2) sorted_wrt_nth_less [of P "map f [lo..hi]" i j]
      by simp
    then show ?thesis
      using fi fj by simp
  qed
qed

lemma projectedTemperature_monotone:
  assumes "2023 \<le> y1" and "y1 \<le> y2" and "y2 \<le> 2050"
  shows "num_le (projectedTemperature y1 region) (projectedTemperature y2 region)"
proof (cases region)
  case Global
  then show ?thesis
    using series_monotone [OF ascending_series(1) assms]
    by (simp add: projectedTemperature_factor [OF factors_Global])
next
  case NorthAmerica
  then show ?thesis
    using series_monotone [OF ascending_series(3) assms]
    by (simp add: projectedTemperature_factor [OF factors_NorthAmerica])
next
  case Europe
  then show ?thesis
    using series_monotone [OF ascending_series(2) assms]
    by (simp add: projectedTemperature_factor [OF factors_Europe])
next
  case Asia
  then show ?thesis
    using series_monotone [OF ascending_series(4) assms]
    by (simp add: projectedTemperature_factor [OF factors_Asia])
next
  case Africa
  then show ?thesis
    using series_monotone [OF ascending_series(5) assms]
    by (simp add: projectedTemperature_factor [OF factors_Africa])
next
  case SouthAmerica
  then show ?thesis
    using series_monotone [OF ascending_series(2) assms]
    by (simp add: projectedTemperature_factor [OF factors_SouthAmerica])
next
  case Oceania
  then show ?thesis
    using series_monotone [OF ascending_series(3) assms]
    by (simp add: projectedTemperature_factor [OF factors_Oceania])
qed

text \<open>
  C5. For every region and all years \<open>y1 \<le> y2\<close> of 2023..2050 the temperature projected
  for \<open>y1\<close> is, as a number, at most the temperature projected for \<open>y2\<close>.
\<close>

theorem temperature_monotone:
  assumes "2023 \<le> y1" and "y1 \<le> y2" and "y2 \<le> 2050"
  shows "\<exists>ms1 ms2.
     calculateMetrics (ofInt y1) region = Inr ms1
     \<and> calculateMetrics (ofInt y2) region = Inr ms2
     \<and> num_le (StringToNumber (temperature ms1)) (StringToNumber (temperature ms2))"
proof -
  obtain ms1 ms2 where
    "calculateMetrics (ofInt y1) region = Inr ms1" "calculateMetrics (ofInt y2) region = Inr ms2"
    using calculateMetrics_Inr by meson
  then show ?thesis
    using projectedTemperature_monotone [OF assms, of region]
    by (simp add: projectedTemperature_def)
qed

theorem temperature_monotone_witness:
  "(2023::int) \<le> 2030 \<and> (2030::int) \<le> 2045 \<and> (2045::int) \<le> 2050
   \<and> (\<exists>ms1 ms2.
     calculateMetrics (ofInt 2030) Asia = Inr ms1
     \<and> calculateMetrics (ofInt 2045) Asia = Inr ms2
     \<and> num_le (StringToNumber (temperature ms1)) (StringToNumber (temperature ms2)))"
  using temperature_monotone [of 2030 2045 Asia] by simp

section \<open>The format of the metrics\<close>

lemma isDigit_digitChar:
  assumes "0 \<le> d" and "d < 10"
  shows "isDigit (digitChar d)"
proof -
  have "d = 0 \<or> d = 1 \<or> d = 2 \<or> d = 3 \<or> d = 4 \<or> d = 5 \<or> d = 6 \<or> d = 7 \<or> d = 8 \<or> d = 9"
    using assms by arith
  then show ?thesis
    by (auto simp: digitChar_def isDigit_def)
qed

lemma decimalDigits_digits:
  assumes "0 \<le> n"
  shows "decimalDigits n \<noteq> [] \<and> list_all isDigit (decimalDigits n)"
  using assms
proof (induction n rule: decimalDigits.induct)
  case (1 n)
  show ?case
  proof (cases "n < 10")
    case True
    then show ?thesis
      using "1.prems" isDigit_digitChar [of n] by (simp add: decimalDigits.simps [of n])
  next
    case False
    then have "0 \<le> n div 10" "0 \<le> n mod 10" "n mod 10 < 10"
      by simp_all
    then show ?thesis
      using False "1.IH" isDigit_digitChar [of "n mod 10"]
      by (simp add: decimalDigits.simps [of n])
  qed
qed

lemma not_isDigit_minus: "\<not> isDigit CHR ''-''"
  by (simp add: isDigit_def)

lemma isOneDecimal_parts:
  assumes "0 \<le> a" and "0 \<le> b" and "b < 10" and "sign = [] \<or> sign = ''-''"
  shows "isOneDecimal (sign @ decimalDigits a @ ''.'' @ decimalDigits b)"
proof -
  obtain c cs where cs: "decimalDigits a = c # cs" "isDigit c" "list_all isDigit cs"
    using decimalDigits_digits [OF assms(1)] by (cases "decimalDigits a") auto
  have b: "decimalDigits b = [digitChar b]" "isDigit (digitChar b)"
    using assms(2,3) isDigit_digitChar by (simp_all add: decimalDigits.simps [of b])
  have "c \<noteq> CHR ''-''"
    using cs(2) not_isDigit_minus by auto
  then show ?thesis
    using assms(4) cs b by (auto simp: isOneDecimal_def)
qed

lemma scaledRound_nonneg:
  assumes "0 \<le> m" and "0 \<le> p" and "0 < q"
  shows "0 \<le> scaledRound m e p q"
  using assms by (simp add: scaledRound_def pos_imp_zdiv_nonneg_iff)

lemma toFixed_oneDecimal:
  assumes "below10pow21 v"
  shows "toFixed v 1 = Inr (spec_oneDecimal v) \<and> isOneDecimal (spec_oneDecimal v)"
proof -
  obtain s m e where v: "v = Finite s m e" and m: "0 \<le> m" and small: "\<not> atLeast10pow21 m e"
    using assms by (cases v) (simp_all add: below10pow21_def)
  define n where "n = scaledRound m e 10 1"
  define sign where "sign = (if s \<and> m \<noteq> 0 then ''-'' else [])"
  have n: "0 \<le> n"
    using m by (simp add: n_def scaledRound_nonneg)
  have spec: "spec_oneDecimal v = sign @ decimalDigits (n div 10) @ ''.'' @ decimalDigits (n mod 10)"
    by (simp add: v spec_oneDecimal_def n_def sign_def Let_def)
  have shape: "isOneDecimal (spec_oneDecimal v)"
    unfolding spec using n by (intro isOneDecimal_parts) (simp_all add: sign_def)
  have last: "decimalDigits (n mod 10) = [digitChar (n mod 10)]"
    by (simp add: decimalDigits.simps [of "n mod 10"])
  have "toFixed v 1 = Inr (sign @ decimalDigits (n div 10) @ ''.'' @ [digitChar (n mod 10)])"
  proof (cases "n < 10")
    case True
    then have "n div 10 = 0" "n mod 10 = n"
      using n by simp_all
    moreover have "decimalDigits n = [digitChar n]" "decimalDigits 0 = [digitChar 0]"
      using True by (simp_all add: decimalDigits.simps [of n] decimalDigits.simps [of 0])
    moreover have "digitChar 0 = CHR ''0''"
      by (simp add: digitChar_def)
    ultimately show ?thesis
      using small by (simp add: v toFixed_def Let_def n_def [symmetric] sign_def)
  next
    case False
    define ds where "ds = decimalDigits (n div 10)"
    have digits: "decimalDigits n = ds @ [digitChar (n mod 10)]"
      using False by (simp add: decimalDigits.simps [of n] ds_def)
    have "ds \<noteq> []"
      using decimalDigits_digits [of "n div 10"] n by (simp add: ds_def)
    then have len: "0 < length ds"
      by simp
    have "n \<noteq> 0"
      using False by simp
    then show ?thesis
      using small len
      by (simp add: v toFixed_def Let_def n_def [symmetric] sign_def digits ds_def [symmetric])
  qed
  then show ?thesis
    using spec shape last by simp
qed

lemma digitCount_bounds:
  assumes "0 < n" and "1 < b"
  shows "0 < digitCount b n \<and> b ^ nat (digitCount b n - 1) \<le> n \<and> n < b ^ nat (digitCount b n)"
  using assms
proof (induction b n rule: digitCount.induct)
  case (1 b n)
  show ?case
  proof (cases "n < b")
    case True
    then have "n div b = 0"
      using "1.prems" by simp
    then have "digitCount b n = 1"
      using "1.prems" by (simp add: digitCount.simps [of b n] digitCount.simps [of b 0])
    then show ?thesis
      using True "1.prems" by simp
  next
    case False
    define k where "k = digitCount b (n div b)"
    have pos: "0 < n div b"
      using False "1.prems" by (simp add: pos_imp_zdiv_pos_iff)
    then have ih: "0 < k" "b ^ nat (k - 1) \<le> n div b" "n div b < b ^ nat k"
      using "1.IH" "1.prems" by (simp_all add: k_def)
    have dc: "digitCount b n = 1 + k"
      using "1.prems" by (simp add: digitCount.simps [of b n] k_def)
    have "nat k = Suc (nat (k - 1))"
      using ih(1) by simp
    then have "b ^ nat k = b * b ^ nat (k - 1)"
      by simp
    also have "\<dots> \<le> b * (n div b)"
      using ih(2) "1.prems" by simp
    also have "\<dots> \<le> n"
      using "1.prems" mult_div_mod_eq [of b n] pos_mod_sign [of b n] by linarith
    finally have lower: "b ^ nat k \<le> n" .
    have "n < b * (n div b) + b"
      using "1.prems" mult_div_mod_eq [of b n] pos_mod_bound [of b n] by linarith
    also have "\<dots> = b * (n div b + 1)"
      by (simp add: algebra_simps)
    also have "\<dots> \<le> b * b ^ nat k"
      using ih(3) "1.prems" by (intro mult_left_mono) simp_all
    also have "\<dots> = b ^ nat (1 + k)"
      using ih(1) by (simp add: nat_add_distrib)
    finally have upper: "n < b ^ nat (1 + k)" .
    show ?thesis
      using lower upper ih(1) by (simp add: dc)
  qed
qed

lemma powi_of_int_nonneg:
  assumes "0 \<le> n"
  shows "(of_int b :: rat) powi n = of_int (b ^ nat n)"
  using assms by (simp add: power_int_def)

lemma powi_of_int_neg:
  assumes "n < 0"
  shows "(of_int b :: rat) powi n = 1 / of_int (b ^ nat (- n))"
  using assms by (simp add: power_int_def inverse_eq_divide power_one_over)

lemma floorLog_lower:
  assumes "0 < p" and "0 < q" and "1 < b"
  shows "(of_int b :: rat) powi (floorLog b p q) \<le> of_int p / of_int q"
proof -
  define B :: rat where "B = of_int b"
  define dp where "dp = digitCount b p"
  define dq where "dq = digitCount b q"
  define d where "d = dp - dq"
  have B: "1 < B" "0 < B" "B \<noteq> 0"
    using assms(3) by (simp_all add: B_def)
  have P: "0 < (of_int p :: rat)" and Q: "0 < (of_int q :: rat)"
    using assms by simp_all
  have bp: "0 < dp" "b ^ nat (dp - 1) \<le> p"
    using digitCount_bounds [OF assms(1,3)] by (simp_all add: dp_def)
  have bq: "0 < dq" "q < b ^ nat dq"
    using digitCount_bounds [OF assms(2,3)] by (simp_all add: dq_def)
  have lowp: "B powi (dp - 1) \<le> of_int p"
  proof -
    have "B powi (dp - 1) = of_int (b ^ nat (dp - 1))"
      unfolding B_def using bp(1) by (intro powi_of_int_nonneg) simp
    then show ?thesis
      using bp(2) by (simp only: of_int_le_iff)
  qed
  have upq: "of_int q \<le> B powi dq"
  proof -
    have "B powi dq = of_int (b ^ nat dq)"
      unfolding B_def using bq(1) by (intro powi_of_int_nonneg) simp
    then show ?thesis
      using bq(2) by (simp only: of_int_le_iff)
  qed
  have weak: "B powi (d - 1) \<le> of_int p / of_int q"
  proof -
    have "B powi (d - 1) = B powi (dp - 1) / B powi dq"
      using B(3) power_int_diff [of B "dp - 1" dq] by (simp add: d_def algebra_simps)
    also have "\<dots> \<le> of_int p / B powi dq"
      using lowp B(2) by (intro divide_right_mono) simp_all
    also have "\<dots> \<le> of_int p / of_int q"
      using upq P Q by (intro divide_left_mono) (simp_all add: B(2))
    finally show ?thesis .
  qed
  have fl_eq: "floorLog b p q =
      (if (if 0 \<le> d then q * b ^ nat d \<le> p else q \<le> p * b ^ nat (- d)) then d else d - 1)"
    unfolding floorLog_def Let_def d_def dp_def dq_def by (rule refl)
  show ?thesis
  proof (cases "if 0 \<le> d then q * b ^ nat d \<le> p else q \<le> p * b ^ nat (- d)")
    case False
    then have "floorLog b p q = d - 1"
      unfolding fl_eq by simp
    then show ?thesis
      using weak by (simp add: B_def)
  next
    case True
    then have fl: "floorLog b p q = d"
      unfolding fl_eq by simp
    have "B powi d \<le> of_int p / of_int q"
    proof (cases "0 \<le> d")
      case nonneg: True
      then have "q * b ^ nat d \<le> p"
        using True by simp
      then have "(of_int (q * b ^ nat d) :: rat) \<le> of_int p"
        by (simp only: of_int_le_iff)
      then have "of_int q * B powi d \<le> of_int p"
        using nonneg by (simp add: B_def powi_of_int_nonneg)
      then show ?thesis
        using Q by (simp add: pos_le_divide_eq mult.commute)
    next
      case neg: False
      then have "q \<le> p * b ^ nat (- d)"
        using True by simp
      then have "(of_int q :: rat) \<le> of_int (p * b ^ nat (- d))"
        by (simp only: of_int_le_iff)
      then have le: "(of_int q :: rat) \<le> of_int p * of_int (b ^ nat (- d))"
        by simp
      have pos: "0 < (of_int (b ^ nat (- d)) :: rat)"
        using assms(3) by simp
      have "B powi d = 1 / of_int (b ^ nat (- d))"
        unfolding B_def using neg by (intro powi_of_int_neg) simp
      also have "\<dots> \<le> of_int p / of_int q"
        using le pos Q by (simp add: field_simps)
      finally show ?thesis .
    qed
    then show ?thesis
      by (simp add: fl B_def)
  qed
qed

lemma roundQuotient_le:
  assumes "0 < d" and "n \<le> d * M"
  shows "roundQuotient n d \<le> M"
proof -
  define k where "k = n div d"
  define r where "r = n mod d"
  have n: "n = d * k + r" and r: "0 \<le> r" "r < d"
    using assms(1) by (simp_all add: k_def r_def)
  have "d * k \<le> d * M"
    using n r assms(2) by linarith
  then have kM: "k \<le> M"
    using assms(1) by simp
  show ?thesis
  proof (cases "k = M")
    case True
    then have "r = 0"
      using n r assms(2) by simp
    then show ?thesis
      using True assms(1) by (simp add: roundQuotient_def Let_def k_def [symmetric] r_def [symmetric])
  next
    case False
    then have "k + 1 \<le> M"
      using kM by simp
    then show ?thesis
      by (simp add: roundQuotient_def Let_def k_def [symmetric])
  qed
qed

lemma roundQuotient_nonneg:
  assumes "0 < d" and "0 \<le> n"
  shows "0 \<le> roundQuotient n d"
  using assms by (simp add: roundQuotient_def Let_def pos_imp_zdiv_nonneg_iff)

lemma two_powi_nonneg:
  assumes "0 \<le> n"
  shows "(2 :: rat) powi n = of_int (2 ^ nat n)"
  using powi_of_int_nonneg [OF assms, of 2] by simp

lemma two_powi_neg:
  assumes "n < 0"
  shows "(2 :: rat) powi n = 1 / of_int (2 ^ nat (- n))"
  using powi_of_int_neg [OF assms, of 2] by simp

lemma two_powi_pos: "0 < (2 :: rat) powi n"
  by simp

lemma atMostPow2_Finite:
  "atMostPow2 K (Finite s m e) \<longleftrightarrow> 0 \<le> m \<and> of_int m * 2 powi e \<le> (2 :: rat) ^ K"
proof (cases "0 \<le> e")
  case True
  have "(m * 2 ^ nat e \<le> 2 ^ K) = ((of_int (m * 2 ^ nat e) :: rat) \<le> of_int (2 ^ K))"
    by (simp only: of_int_le_iff)
  then show ?thesis
    using True by (simp add: atMostPow2_def two_powi_nonneg)
next
  case False
  then have neg: "e < 0"
    by simp
  have pos: "0 < (of_int (2 ^ nat (- e)) :: rat)"
    by simp
  have "(m \<le> 2 ^ K * 2 ^ nat (- e)) = ((of_int m :: rat) \<le> of_int (2 ^ K * 2 ^ nat (- e)))"
    by (simp only: of_int_le_iff)
  also have "\<dots> = (of_int m * (1 / of_int (2 ^ nat (- e))) \<le> (2 :: rat) ^ K)"
    using pos by (simp add: field_simps)
  finally show ?thesis
    using neg by (simp add: atMostPow2_def two_powi_neg)
qed

lemma mantissa_le:
  assumes "0 < q" and "E \<le> K"
    and "of_int p * 2 powi e \<le> of_int q * (2 :: rat) powi K"
  shows "(if E \<le> e then roundQuotient (p * 2 ^ nat (e - E)) q
          else roundQuotient p (q * 2 ^ nat (E - e))) \<le> 2 ^ nat (K - E)"
proof (cases "E \<le> e")
  case True
  have "of_int p * 2 powi e * 2 powi (- E) \<le> of_int q * (2 :: rat) powi K * 2 powi (- E)"
    using assms(3) by (intro mult_right_mono) simp_all
  then have "of_int p * 2 powi (e - E) \<le> of_int q * (2 :: rat) powi (K - E)"
    by (simp add: power_int_diff power_int_minus field_simps)
  then have "(of_int (p * 2 ^ nat (e - E)) :: rat) \<le> of_int (q * 2 ^ nat (K - E))"
    using True assms(2) by (simp add: two_powi_nonneg)
  then have "p * 2 ^ nat (e - E) \<le> q * 2 ^ nat (K - E)"
    by (simp only: of_int_le_iff)
  then show ?thesis
    using True assms(1) by (simp add: roundQuotient_le)
next
  case False
  then have gap: "0 \<le> E - e" "0 \<le> K - E" "0 \<le> K - e"
    using assms(2) by simp_all
  have "of_int p * 2 powi e * 2 powi (- e) \<le> of_int q * (2 :: rat) powi K * 2 powi (- e)"
    using assms(3) by (intro mult_right_mono) simp_all
  then have "of_int p \<le> of_int q * (2 :: rat) powi (K - e)"
    by (simp add: power_int_diff power_int_minus field_simps)
  also have "(2 :: rat) powi (K - e) = 2 powi (E - e) * 2 powi (K - E)"
    using power_int_add [of "2 :: rat" "E - e" "K - E"] by simp
  finally have "(of_int p :: rat) \<le> of_int (q * 2 ^ nat (E - e) * 2 ^ nat (K - E))"
    using gap by (simp add: two_powi_nonneg)
  then have "p \<le> q * 2 ^ nat (E - e) * 2 ^ nat (K - E)"
    by (simp only: of_int_le_iff)
  then show ?thesis
    using False assms(1) by (simp add: roundQuotient_le)
qed

lemma two_powi_le_imp_le:
  assumes "(2 :: rat) powi m \<le> 2 powi n"
  shows "m \<le> n"
proof (rule ccontr)
  assume "\<not> m \<le> n"
  then have "(2 :: rat) powi n < 2 powi m"
    by (intro power_int_strict_increasing) simp_all
  then show False
    using assms by simp
qed

lemma roundToDouble_atMostPow2:
  assumes "0 \<le> p" and "0 < q" and "K \<le> 1023"
    and "of_int p * 2 powi e \<le> of_int q * (2 :: rat) ^ K"
  shows "atMostPow2 K (roundToDouble s p q e)"
proof (cases "p = 0")
  case True
  then show ?thesis
    by (simp add: roundToDouble_def atMostPow2_Finite)
next
  case False
  then have p: "0 < p"
    using assms(1) by simp
  define L where "L = floorLog 2 p q"
  define E where "E = max (L + e - 52) (- 1074)"
  define m where "m = (if E \<le> e then roundQuotient (p * 2 ^ nat (e - E)) q
                        else roundQuotient p (q * 2 ^ nat (E - e)))"
  have Q: "0 < (of_int q :: rat)"
    using assms(2) by simp
  have bound: "of_int p * 2 powi e \<le> of_int q * (2 :: rat) powi int K"
    using assms(4) by simp
  have "(2 :: rat) powi L \<le> of_int p / of_int q"
    using floorLog_lower [OF p assms(2), of 2] by (simp add: L_def)
  then have "(2 :: rat) powi L * 2 powi e \<le> of_int p / of_int q * 2 powi e"
    by (intro mult_right_mono) simp_all
  also have "\<dots> \<le> 2 powi int K"
    using bound Q by (simp add: field_simps)
  finally have "(2 :: rat) powi (L + e) \<le> 2 powi int K"
    by (simp add: power_int_add)
  then have LK: "L + e \<le> int K"
    by (rule two_powi_le_imp_le)
  then have EK: "E \<le> int K" and E971: "E \<le> 971"
    using assms(3) by (simp_all add: E_def)
  have m_le: "m \<le> 2 ^ nat (int K - E)"
    unfolding m_def using assms(2) EK bound by (rule mantissa_le)
  have m_nonneg: "0 \<le> m"
    using assms(1,2) by (simp add: m_def roundQuotient_nonneg)
  have mval: "of_int m * 2 powi E \<le> (2 :: rat) ^ K"
  proof -
    have "(of_int m :: rat) \<le> of_int (2 ^ nat (int K - E))"
      using m_le by (simp only: of_int_le_iff)
    also have "\<dots> = 2 powi (int K - E)"
      using EK by (simp add: two_powi_nonneg)
    finally have "of_int m * 2 powi E \<le> (2 :: rat) powi (int K - E) * 2 powi E"
      by (intro mult_right_mono) simp_all
    also have "\<dots> = 2 powi int K"
      using power_int_add [of "2 :: rat" "int K - E" E] by simp
    finally show ?thesis
      by simp
  qed
  have rd: "roundToDouble s p q e =
      (if (if m = 2 ^ 53 then 2 ^ 52 else m) = 0 then Finite s 0 0
       else if 971 < (if m = 2 ^ 53 then E + 1 else E) then Infinite s
       else Finite s (if m = 2 ^ 53 then 2 ^ 52 else m) (if m = 2 ^ 53 then E + 1 else E))"
    unfolding roundToDouble_def Let_def m_def E_def L_def
    using False by (simp only: if_False)
  show ?thesis
  proof (cases "m = 2 ^ 53")
    case carry: True
    have "(2 :: int) ^ 53 \<le> 2 ^ nat (int K - E)"
      using m_le carry by simp
    then have "53 \<le> nat (int K - E)"
      by (subst (asm) power_increasing_iff) simp_all
    then have "E + 1 \<le> 971"
      using assms(3) by simp
    moreover have "of_int (2 ^ 52) * 2 powi (E + 1) = (of_int m :: rat) * 2 powi E"
      using carry by (simp add: power_int_add)
    ultimately show ?thesis
      using mval by (simp add: rd carry atMostPow2_Finite del: of_int_power)
  next
    case no_carry: False
    then show ?thesis
      using mval E971 m_nonneg by (simp add: rd atMostPow2_Finite)
  qed
qed

lemma atLeastOne_Finite:
  "atLeastOne (Finite s m e) \<longleftrightarrow> \<not> s \<and> 0 < m \<and> 1 \<le> (of_int m :: rat) * 2 powi e"
proof (cases "0 \<le> e")
  case True
  have "(1 \<le> m * 2 ^ nat e) = ((of_int 1 :: rat) \<le> of_int (m * 2 ^ nat e))"
    by (simp only: of_int_le_iff)
  then show ?thesis
    using True by (simp add: atLeastOne_def two_powi_nonneg)
next
  case False
  then have neg: "e < 0"
    by simp
  have pos: "0 < (of_int (2 ^ nat (- e)) :: rat)"
    by simp
  have "(2 ^ nat (- e) \<le> m) = ((of_int (2 ^ nat (- e)) :: rat) \<le> of_int m)"
    by (simp only: of_int_le_iff)
  also have "\<dots> = (1 \<le> (of_int m :: rat) * (1 / of_int (2 ^ nat (- e))))"
    using pos by (simp add: field_simps)
  finally show ?thesis
    using neg by (simp add: atLeastOne_def two_powi_neg)
qed

lemma atMostPow2_mono:
  assumes "atMostPow2 K v" and "K \<le> K'"
  shows "atMostPow2 K' v"
proof -
  obtain s m e where v: "v = Finite s m e"
    using assms(1) by (cases v) (simp_all add: atMostPow2_def)
  have m: "0 \<le> m" "of_int m * 2 powi e \<le> (2 :: rat) ^ K"
    using assms(1) by (simp_all add: v atMostPow2_Finite)
  have "(2 :: rat) ^ K \<le> 2 ^ K'"
    using assms(2) by (intro power_increasing) simp_all
  with m(2) have "of_int m * 2 powi e \<le> (2 :: rat) ^ K'"
    by (rule order_trans)
  then show ?thesis
    using m(1) by (simp add: v atMostPow2_Finite)
qed

lemma ofInt_atMostPow2:
  assumes "\<bar>y\<bar> \<le> 2 ^ K" and "K \<le> 1023"
  shows "atMostPow2 K (ofInt y)"
proof -
  have "(of_int \<bar>y\<bar> :: rat) \<le> of_int (2 ^ K)"
    using assms(1) by (simp only: of_int_le_iff)
  then show ?thesis
    unfolding ofInt_def using assms(2)
    by (intro roundToDouble_atMostPow2) simp_all
qed

lemma fneg_atMostPow2:
  assumes "atMostPow2 K v"
  shows "atMostPow2 K (fneg v)"
  using assms by (cases v) (simp_all add: atMostPow2_def)

lemma fmul_atMostPow2:
  assumes "atMostPow2 K1 a" and "atMostPow2 K2 b" and "K1 + K2 \<le> 1023"
  shows "atMostPow2 (K1 + K2) (fmul a b)"
proof -
  obtain s1 m1 e1 where a: "a = Finite s1 m1 e1"
    using assms(1) by (cases a) (simp_all add: atMostPow2_def)
  obtain s2 m2 e2 where b: "b = Finite s2 m2 e2"
    using assms(2) by (cases b) (simp_all add: atMostPow2_def)
  have m1: "0 \<le> m1" "of_int m1 * 2 powi e1 \<le> (2 :: rat) ^ K1"
    using assms(1) by (simp_all add: a atMostPow2_Finite)
  have m2: "0 \<le> m2" "of_int m2 * 2 powi e2 \<le> (2 :: rat) ^ K2"
    using assms(2) by (simp_all add: b atMostPow2_Finite)
  have "(of_int m1 * 2 powi e1) * (of_int m2 * 2 powi e2) \<le> (2 :: rat) ^ K1 * 2 ^ K2"
    using m1 m2 by (intro mult_mono) simp_all
  then have "of_int (m1 * m2) * 2 powi (e1 + e2) \<le> of_int 1 * (2 :: rat) ^ (K1 + K2)"
    by (simp add: power_int_add power_add mult_ac)
  then show ?thesis
    unfolding a b fmul.simps using m1(1) m2(1) assms(3)
    by (intro roundToDouble_atMostPow2) simp_all
qed

lemma fdiv_atMostPow2:
  assumes "atMostPow2 K a" and "atLeastOne b" and "K \<le> 1023"
  shows "atMostPow2 K (fdiv a b)"
proof -
  obtain s1 m1 e1 where a: "a = Finite s1 m1 e1"
    using assms(1) by (cases a) (simp_all add: atMostPow2_def)
  obtain s2 m2 e2 where b: "b = Finite s2 m2 e2"
    using assms(2) by (cases b) (simp_all add: atLeastOne_def)
  have m1: "0 \<le> m1" "of_int m1 * 2 powi e1 \<le> (2 :: rat) ^ K"
    using assms(1) by (simp_all add: a atMostPow2_Finite)
  have m2: "0 < m2" "1 \<le> (of_int m2 :: rat) * 2 powi e2"
    using assms(2) by (simp_all add: b atLeastOne_Finite)
  have "of_int m1 * 2 powi e1 * 1 \<le> (2 :: rat) ^ K * (of_int m2 * 2 powi e2)"
    using m1 m2 by (intro mult_mono) simp_all
  then have "of_int m1 * 2 powi e1 * 2 powi (- e2) \<le> (2 :: rat) ^ K * (of_int m2 * 2 powi e2) * 2 powi (- e2)"
    by (intro mult_right_mono) simp_all
  then have "of_int m1 * 2 powi (e1 - e2) \<le> of_int m2 * (2 :: rat) ^ K"
    by (simp add: power_int_diff power_int_minus field_simps)
  then show ?thesis
    unfolding a b using m1(1) m2(1) assms(3)
    by (simp add: roundToDouble_atMostPow2)
qed

lemma fadd_atMostPow2:
  assumes "atMostPow2 K a" and "atMostPow2 K b" and "K < 1023"
  shows "atMostPow2 (Suc K) (fadd a b)"
proof -
  obtain s1 m1 e1 where a: "a = Finite s1 m1 e1"
    using assms(1) by (cases a) (simp_all add: atMostPow2_def)
  obtain s2 m2 e2 where b: "b = Finite s2 m2 e2"
    using assms(2) by (cases b) (simp_all add: atMostPow2_def)
  have m1: "0 \<le> m1" "of_int m1 * 2 powi e1 \<le> (2 :: rat) ^ K"
    using assms(1) by (simp_all add: a atMostPow2_Finite)
  have m2: "0 \<le> m2" "of_int m2 * 2 powi e2 \<le> (2 :: rat) ^ K"
    using assms(2) by (simp_all add: b atMostPow2_Finite)
  define e where "e = min e1 e2"
  define c where "c = (if s1 then - m1 else m1) * 2 ^ nat (e1 - e)
      + (if s2 then - m2 else m2) * 2 ^ nat (e2 - e)"
  have e: "0 \<le> e1 - e" "0 \<le> e2 - e"
    by (simp_all add: e_def)
  have "\<bar>c\<bar> \<le> m1 * 2 ^ nat (e1 - e) + m2 * 2 ^ nat (e2 - e)"
    using m1(1) m2(1) by (simp add: c_def abs_le_iff)
  then have "(of_int \<bar>c\<bar> :: rat) \<le> of_int (m1 * 2 ^ nat (e1 - e) + m2 * 2 ^ nat (e2 - e))"
    by (simp only: of_int_le_iff)
  also have "\<dots> = of_int m1 * 2 powi (e1 - e) + of_int m2 * 2 powi (e2 - e)"
    using e by (simp add: two_powi_nonneg)
  finally have "of_int \<bar>c\<bar> * 2 powi e
      \<le> (of_int m1 * 2 powi (e1 - e) + of_int m2 * 2 powi (e2 - e)) * (2 :: rat) powi e"
    by (intro mult_right_mono) simp_all
  also have "\<dots> = of_int m1 * 2 powi e1 + of_int m2 * 2 powi e2"
    using power_int_add [of "2 :: rat" "e1 - e" e] power_int_add [of "2 :: rat" "e2 - e" e]
    by (simp add: algebra_simps)
  also have "\<dots> \<le> 2 ^ K + 2 ^ K"
    using m1(2) m2(2) by (rule add_mono)
  finally have "of_int \<bar>c\<bar> * 2 powi e \<le> of_int 1 * (2 :: rat) ^ Suc K"
    by simp
  then have "atMostPow2 (Suc K) (roundToDouble (c < 0) \<bar>c\<bar> 1 e)"
    using assms(3) by (intro roundToDouble_atMostPow2) simp_all
  moreover have "atMostPow2 (Suc K) (Finite (s1 \<and> s2) 0 0)"
    by (simp add: atMostPow2_Finite)
  ultimately show ?thesis
    by (simp add: a b Let_def e_def [symmetric] c_def [symmetric])
qed

lemma atMostPow2_below10pow21:
  assumes "atMostPow2 K v" and "K \<le> 69"
  shows "below10pow21 v"
proof -
  obtain s m e where v: "v = Finite s m e"
    using assms(1) by (cases v) (simp_all add: atMostPow2_def)
  have m: "0 \<le> m" "of_int m * 2 powi e \<le> (2 :: rat) ^ K"
    using assms(1) by (simp_all add: v atMostPow2_Finite)
  have "(2 :: rat) ^ K \<le> 2 ^ 69"
    using assms(2) by (intro power_increasing) simp_all
  also have "\<dots> < 10 ^ 21"
    by simp
  finally have less: "of_int m * 2 powi e < (10 :: rat) ^ 21"
    using m(2) by simp
  have "\<not> atLeast10pow21 m e"
  proof (cases "0 \<le> e")
    case True
    have "(of_int (m * 2 ^ nat e) :: rat) < of_int (10 ^ 21)"
      using less True by (simp add: two_powi_nonneg)
    then have "m * 2 ^ nat e < 10 ^ 21"
      by (simp only: of_int_less_iff)
    then show ?thesis
      using True by (simp add: atLeast10pow21_def)
  next
    case False
    then have neg: "e < 0"
      by simp
    have pos: "0 < (of_int (2 ^ nat (- e)) :: rat)"
      by simp
    have "of_int m * (1 / of_int (2 ^ nat (- e))) < (10 :: rat) ^ 21"
      using less neg by (simp add: two_powi_neg)
    then have "(of_int m :: rat) < of_int (10 ^ 21 * 2 ^ nat (- e))"
      using pos by (simp add: field_simps)
    then have "m < 10 ^ 21 * 2 ^ nat (- e)"
      by (simp only: of_int_less_iff)
    then show ?thesis
      using neg by (simp add: atLeast10pow21_def)
  qed
  then show ?thesis
    using m(1) by (simp add: v below10pow21_def)
qed

lemma constants_bounds:
  "atMostPow2 11 (lit 2023 1)"
  "atMostPow2 1 (lit 11 10)"
  "atMostPow2 0 (fsub (lit 16 10) (lit 11 10))"
  "atLeastOne (fsub (lit 2050 1) (lit 2023 1))"
  "atMostPow2 3 (lit 53 10)"
  "atMostPow2 5 (lit 263 10)"
  "atMostPow2 5 (lit 32 1)"
  by code_simp+

lemma factors_bounds:
  "list_all (\<lambda>entry. atMostPow2 1 (RegionalFactors.temperature (snd entry))
        \<and> atMostPow2 1 (RegionalFactors.precipitation (snd entry))
        \<and> atMostPow2 1 (RegionalFactors.seaLevel (snd entry))
        \<and> atMostPow2 1 (RegionalFactors.extremeEvents (snd entry))) regionalFactors"
  by code_simp

lemma factors_atMostPow2:
  assumes "map_of regionalFactors region = Some factors"
  shows "atMostPow2 1 (RegionalFactors.temperature factors)"
    and "atMostPow2 1 (RegionalFactors.precipitation factors)"
    and "atMostPow2 1 (RegionalFactors.seaLevel factors)"
    and "atMostPow2 1 (RegionalFactors.extremeEvents factors)"
proof -
  have "(region, factors) \<in> set regionalFactors"
    using assms by (rule map_of_SomeD)
  then show "atMostPow2 1 (RegionalFactors.temperature factors)"
    and "atMostPow2 1 (RegionalFactors.precipitation factors)"
    and "atMostPow2 1 (RegionalFactors.seaLevel factors)"
    and "atMostPow2 1 (RegionalFactors.extremeEvents factors)"
    using factors_bounds by (auto simp: list_all_iff)
qed

lemma projections_below10pow21:
  assumes "\<bar>y\<bar> \<le> 2 ^ 62" and "map_of regionalFactors region = Some factors"
  shows "below10pow21 (spec_temperature (ofInt y) factors)"
    and "below10pow21 (spec_precipitation (ofInt y) factors)"
    and "below10pow21 (spec_seaLevel (ofInt y) factors)"
    and "below10pow21 (spec_extremeEvents (ofInt y) factors)"
proof -
  note f = factors_atMostPow2 [OF assms(2)]
  have "atMostPow2 62 (ofInt y)"
    using assms(1) by (rule ofInt_atMostPow2) simp
  moreover have "atMostPow2 62 (lit 2023 1)"
    using constants_bounds(1) by (rule atMostPow2_mono) simp
  then have "atMostPow2 62 (fneg (lit 2023 1))"
    by (rule fneg_atMostPow2)
  ultimately have "atMostPow2 (Suc 62) (fadd (ofInt y) (fneg (lit 2023 1)))"
    by (rule fadd_atMostPow2) simp
  then have yd: "atMostPow2 63 (spec_yearDiff (ofInt y))"
    by (simp add: spec_yearDiff_def fsub_def)
  have "atMostPow2 (63 + 0) (fmul (spec_yearDiff (ofInt y)) (fsub (lit 16 10) (lit 11 10)))"
    using yd constants_bounds(3) by (rule fmul_atMostPow2) simp
  then have "atMostPow2 63 (fdiv (fmul (spec_yearDiff (ofInt y)) (fsub (lit 16 10) (lit 11 10)))
      (fsub (lit 2050 1) (lit 2023 1)))"
    using constants_bounds(4) by (intro fdiv_atMostPow2) simp_all
  moreover have "atMostPow2 63 (lit 11 10)"
    using constants_bounds(2) by (rule atMostPow2_mono) simp
  ultimately have "atMostPow2 (Suc 63) (spec_baseTemp (spec_yearDiff (ofInt y)))"
    unfolding spec_baseTemp_def by (intro fadd_atMostPow2) simp_all
  then have "atMostPow2 (Suc 63 + 1) (spec_temperature (ofInt y) factors)"
    unfolding spec_temperature_def using f(1) by (rule fmul_atMostPow2) simp
  then show "below10pow21 (spec_temperature (ofInt y) factors)"
    by (rule atMostPow2_below10pow21) simp
  have "atMostPow2 (63 + 3) (fmul (spec_yearDiff (ofInt y)) (lit 53 10))"
    using yd constants_bounds(5) by (rule fmul_atMostPow2) simp
  then have "atMostPow2 (63 + 3) (spec_basePrecip (spec_yearDiff (ofInt y)))"
    unfolding spec_basePrecip_def using constants_bounds(4) by (intro fdiv_atMostPow2) simp_all
  then have "atMostPow2 (63 + 3 + 1) (spec_precipitation (ofInt y) factors)"
    unfolding spec_precipitation_def using f(2) by (rule fmul_atMostPow2) simp
  then show "below10pow21 (spec_precipitation (ofInt y) factors)"
    by (rule atMostPow2_below10pow21) simp
  have "atMostPow2 (63 + 5) (fmul (spec_yearDiff (ofInt y)) (lit 263 10))"
    using yd constants_bounds(6) by (rule fmul_atMostPow2) simp
  then have "atMostPow2 (63 + 5) (spec_baseSeaLevel (spec_yearDiff (ofInt y)))"
    unfolding spec_baseSeaLevel_def using constants_bounds(4) by (intro fdiv_atMostPow2) simp_all
  then have "atMostPow2 (63 + 5 + 1) (spec_seaLevel (ofInt y) factors)"
    unfolding spec_seaLevel_def using f(3) by (rule fmul_atMostPow2) simp
  then show "below10pow21 (spec_seaLevel (ofInt y) factors)"
    by (rule atMostPow2_below10pow21) simp
  have "atMostPow2 (63 + 5) (fmul (spec_yearDiff (ofInt y)) (lit 32 1))"
    using yd constants_bounds(7) by (rule fmul_atMostPow2) simp
  then have "atMostPow2 (63 + 5) (spec_baseExtreme (spec_yearDiff (ofInt y)))"
    unfolding spec_baseExtreme_def using constants_bounds(4) by (intro fdiv_atMostPow2) simp_all
  then have "atMostPow2 (63 + 5 + 1) (spec_extremeEvents (ofInt y) factors)"
    unfolding spec_extremeEvents_def using f(4) by (rule fmul_atMostPow2) simp
  then show "below10pow21 (spec_extremeEvents (ofInt y) factors)"
    by (rule atMostPow2_below10pow21) simp
qed

text \<open>
  C1, as it stands, fails at the year \<open>2.7 * 10^21\<close> for the region Global: seaLevel comes
  back as \<open>2.63e+21\<close>, with two digits after the decimal point, and extremeEvents as
  \<open>3.2e+21\<close>. Both are in exponent notation; neither is a sign, digits, a point and one
  digit.
\<close>

theorem calculateMetrics_format_counterexample:
  "calculateMetrics (ofInt 2700000000000000000000) Global =
     Inr \<lparr>temperature = ''50000000000000000000.0'', precipitation = ''530000000000000000000.0'',
          seaLevel = ''2.63e+21'', extremeEvents = ''3.2e+21''\<rparr>
   \<and> \<not> isOneDecimal ''2.63e+21'' \<and> \<not> isOneDecimal ''3.2e+21''"
  by code_simp

text \<open>
  C1, amended. For every integer year and every region \<open>calculateMetrics\<close> computes the year
  difference and the four base values by the formulas of the contract, multiplies each by
  the matching factor of the region and returns each result of a magnitude below \<open>10^21\<close>
  formatted with exactly one digit after the decimal point. For a year of a magnitude of at
  most \<open>2^62\<close> all four results are of a magnitude below \<open>10^21\<close>. What is returned is in
  every case \<open>toFixed(1)\<close> of the result.
\<close>

theorem calculateMetrics_formula:
  "\<forall>y region. \<exists>factors ms.
     map_of regionalFactors region = Some factors
     \<and> calculateMetrics (ofInt y) region = Inr ms
     \<and> toFixed (spec_temperature (ofInt y) factors) 1 = Inr (temperature ms)
     \<and> toFixed (spec_precipitation (ofInt y) factors) 1 = Inr (precipitation ms)
     \<and> toFixed (spec_seaLevel (ofInt y) factors) 1 = Inr (seaLevel ms)
     \<and> toFixed (spec_extremeEvents (ofInt y) factors) 1 = Inr (extremeEvents ms)
     \<and> (below10pow21 (spec_temperature (ofInt y) factors) \<longrightarrow>
          temperature ms = spec_oneDecimal (spec_temperature (ofInt y) factors)
          \<and> isOneDecimal (temperature ms))
     \<and> (below10pow21 (spec_precipitation (ofInt y) factors) \<longrightarrow>
          precipitation ms = spec_oneDecimal (spec_precipitation (ofInt y) factors)
          \<and> isOneDecimal (precipitation ms))
     \<and> (below10pow21 (spec_seaLevel (ofInt y) factors) \<longrightarrow>
          seaLevel ms = spec_oneDecimal (spec_seaLevel (ofInt y) factors)
          \<and> isOneDecimal (seaLevel ms))
     \<and> (below10pow21 (spec_extremeEvents (ofInt y) factors) \<longrightarrow>
          extremeEvents ms = spec_oneDecimal (spec_extremeEvents (ofInt y) factors)
          \<and> isOneDecimal (extremeEvents ms))
     \<and> (\<bar>y\<bar> \<le> 2 ^ 62 \<longrightarrow>
          below10pow21 (spec_temperature (ofInt y) factors)
          \<and> below10pow21 (spec_precipitation (ofInt y) factors)
          \<and> below10pow21 (spec_seaLevel (ofInt y) factors)
          \<and> below10pow21 (spec_extremeEvents (ofInt y) factors))"
proof (intro allI)
  fix y region
  obtain factors where f: "map_of regionalFactors region = Some factors"
    using regionalFactors_total by blast
  obtain ms where ms: "calculateMetrics (ofInt y) region = Inr ms"
    and t: "toFixed (spec_temperature (ofInt y) factors) 1 = Inr (temperature ms)"
    and p: "toFixed (spec_precipitation (ofInt y) factors) 1 = Inr (precipitation ms)"
    and sl: "toFixed (spec_seaLevel (ofInt y) factors) 1 = Inr (seaLevel ms)"
    and ee: "toFixed (spec_extremeEvents (ofInt y) factors) 1 = Inr (extremeEvents ms)"
    using calculateMetrics_fields [OF f, of "ofInt y"]
    unfolding spec_temperature_def spec_precipitation_def spec_seaLevel_def
      spec_extremeEvents_def
    by blast
  have fmt: "\<And>v str. toFixed v 1 = Inr str \<Longrightarrow> below10pow21 v \<Longrightarrow>
      str = spec_oneDecimal v \<and> isOneDecimal str"
    using toFixed_oneDecimal by fastforce
  show "\<exists>factors ms.
     map_of regionalFactors region = Some factors
     \<and> calculateMetrics (ofInt y) region = Inr ms
     \<and> toFixed (spec_temperature (ofInt y) factors) 1 = Inr (temperature ms)
     \<and> toFixed (spec_precipitation (ofInt y) factors) 1 = Inr (precipitation ms)
     \<and> toFixed (spec_seaLevel (ofInt y) factors) 1 = Inr (seaLevel ms)
     \<and> toFixed (spec_extremeEvents (ofInt y) factors) 1 = Inr (extremeEvents ms)
     \<and> (below10pow21 (spec_temperature (ofInt y) factors) \<longrightarrow>
          temperature ms = spec_oneDecimal (spec_temperature (ofInt y) factors)
          \<and> isOneDecimal (temperature ms))
     \<and> (below10pow21 (spec_precipitation (ofInt y) factors) \<longrightarrow>
          precipitation ms = spec_oneDecimal (spec_precipitation (ofInt y) factors)
          \<and> isOneDecimal (precipitation ms))
     \<and> (below10pow21 (spec_seaLevel (ofInt y) factors) \<longrightarrow>
          seaLevel ms = spec_oneDecimal (spec_seaLevel (ofInt y) factors)
          \<and> isOneDecimal (seaLevel ms))
     \<and> (below10pow21 (spec_extremeEvents (ofInt y) factors) \<longrightarrow>
          extremeEvents ms = spec_oneDecimal (spec_extremeEvents (ofInt y) factors)
          \<and> isOneDecimal (extremeEvents ms))
     \<and> (\<bar>y\<bar> \<le> 2 ^ 62 \<longrightarrow>
          below10pow21 (spec_temperature (ofInt y) factors)
          \<and> below10pow21 (spec_precipitation (ofInt y) factors)
          \<and> below10pow21 (spec_seaLevel (ofInt y) factors)
          \<and> below10pow21 (spec_extremeEvents (ofInt y) factors))"
  proof (intro exI [of _ factors] exI [of _ ms] conjI impI)
    show "map_of regionalFactors region = Some factors"
      by (rule f)
    show "calculateMetrics (ofInt y) region = Inr ms"
      by (rule ms)
    show "toFixed (spec_temperature (ofInt y) factors) 1 = Inr (temperature ms)"
      by (rule t)
    show "toFixed (spec_precipitation (ofInt y) factors) 1 = Inr (precipitation ms)"
      by (rule p)
    show "toFixed (spec_seaLevel (ofInt y) factors) 1 = Inr (seaLevel ms)"
      by (rule sl)
    show "toFixed (spec_extremeEvents (ofInt y) factors) 1 = Inr (extremeEvents ms)"
      by (rule ee)
  next
    assume "below10pow21 (spec_temperature (ofInt y) factors)"
    then show "temperature ms = spec_oneDecimal (spec_temperature (ofInt y) factors)"
      and "isOneDecimal (temperature ms)"
      using fmt [OF t] by blast+
  next
    assume "below10pow21 (spec_precipitation (ofInt y) factors)"
    then show "precipitation ms = spec_oneDecimal (spec_precipitation (ofInt y) factors)"
      and "isOneDecimal (precipitation ms)"
      using fmt [OF p] by blast+
  next
    assume "below10pow21 (spec_seaLevel (ofInt y) factors)"
    then show "seaLevel ms = spec_oneDecimal (spec_seaLevel (ofInt y) factors)"
      and "isOneDecimal (seaLevel ms)"
      using fmt [OF sl] by blast+
  next
    assume "below10pow21 (spec_extremeEvents (ofInt y) factors)"
    then show "extremeEvents ms = spec_oneDecimal (spec_extremeEvents (ofInt y) factors)"
      and "isOneDecimal (extremeEvents ms)"
      using fmt [OF ee] by blast+
  next
    assume "\<bar>y\<bar> \<le> 2 ^ 62"
    then show "below10pow21 (spec_temperature (ofInt y) factors)"
      and "below10pow21 (spec_precipitation (ofInt y) factors)"
      and "below10pow21 (spec_seaLevel (ofInt y) factors)"
      and "below10pow21 (spec_extremeEvents (ofInt y) factors)"
      using projections_below10pow21 [OF _ f] by blast+
  qed
qed

theorem calculateMetrics_formula_witness:
  "\<exists>factors ms.
     map_of regionalFactors Global = Some factors
     \<and> calculateMetrics (ofInt 2050) Global = Inr ms
     \<and> \<bar>2050 :: int\<bar> \<le> 2 ^ 62
     \<and> below10pow21 (spec_temperature (ofInt 2050) factors)
     \<and> temperature ms = spec_oneDecimal (spec_temperature (ofInt 2050) factors)
     \<and> isOneDecimal (temperature ms)
     \<and> below10pow21 (spec_precipitation (ofInt 2050) factors)
     \<and> precipitation ms = spec_oneDecimal (spec_precipitation (ofInt 2050) factors)
     \<and> isOneDecimal (precipitation ms)
     \<and> below10pow21 (spec_seaLevel (ofInt 2050) factors)
     \<and> seaLevel ms = spec_oneDecimal (spec_seaLevel (ofInt 2050) factors)
     \<and> isOneDecimal (seaLevel ms)
     \<and> below10pow21 (spec_extremeEvents (ofInt 2050) factors)
     \<and> extremeEvents ms = spec_oneDecimal (spec_extremeEvents (ofInt 2050) factors)
     \<and> isOneDecimal (extremeEvents ms)"
proof -
  have small: "\<bar>2050 :: int\<bar> \<le> 2 ^ 62"
    by simp
  obtain factors ms where
    "map_of regionalFactors Global = Some factors"
    "calculateMetrics (ofInt 2050) Global = Inr ms"
    "below10pow21 (spec_temperature (ofInt 2050) factors) \<longrightarrow>
       temperature ms = spec_oneDecimal (spec_temperature (ofInt 2050) factors)
       \<and> isOneDecimal (temperature ms)"
    "below10pow21 (spec_precipitation (ofInt 2050) factors) \<longrightarrow>
       precipitation ms = spec_oneDecimal (spec_precipitation (ofInt 2050) factors)
       \<and> isOneDecimal (precipitation ms)"
    "below10pow21 (spec_seaLevel (ofInt 2050) factors) \<longrightarrow>
       seaLevel ms = spec_oneDecimal (spec_seaLevel (ofInt 2050) factors)
       \<and> isOneDecimal (seaLevel ms)"
    "below10pow21 (spec_extremeEvents (ofInt 2050) factors) \<longrightarrow>
       extremeEvents ms = spec_oneDecimal (spec_extremeEvents (ofInt 2050) factors)
       \<and> isOneDecimal (extremeEvents ms)"
    "\<bar>2050 :: int\<bar> \<le> 2 ^ 62 \<longrightarrow>
       below10pow21 (spec_temperature (ofInt 2050) factors)
       \<and> below10pow21 (spec_precipitation (ofInt 2050) factors)
       \<and> below10pow21 (spec_seaLevel (ofInt 2050) factors)
       \<and> below10pow21 (spec_extremeEvents (ofInt 2050) factors)"
    using calculateMetrics_formula [rule_format, where y = 2050 and region = Global] by blast
  then show ?thesis
    using small by blast
qed


end
